theory Spec2Isabelle
  imports Complex_Main "HOL-Library.AList" "HOL-Library.Extended_Nat"
begin

section \<open>Variable cache (class VariableCache)\<close>

text \<open>
  A JavaScript \<open>Map\<close> keeps its keys unique and in insertion order: \<open>set\<close> on a
  present key replaces the value in place, on a new key appends, \<open>delete\<close> removes
  the entry. An association list with \<open>AList.update\<close>, \<open>AList.delete\<close> and
  \<open>map_of\<close> behaves the same way. Handles of live collections and variables are
  the type parameters \<open>'c\<close> and \<open>'v\<close>.
\<close>

record ('c, 'v) VariableCache =
  collectionMap :: "(string \<times> 'c) list"
  variableMap :: "(string \<times> 'v) list"
  initialized :: bool

definition startsWith :: "string \<Rightarrow> string \<Rightarrow> bool" where
  "startsWith s p = (take (length p) s = p)"

definition getCollection :: "('c, 'v) VariableCache \<Rightarrow> string \<Rightarrow> 'c option" where
  "getCollection c name = map_of (collectionMap c) name"

definition getVariable :: "('c, 'v) VariableCache \<Rightarrow> string \<Rightarrow> 'v option" where
  "getVariable c key = map_of (variableMap c) key"

definition setVariable :: "string \<Rightarrow> 'v \<Rightarrow> ('c, 'v) VariableCache \<Rightarrow> ('c, 'v) VariableCache" where
  "setVariable key v c = c\<lparr>variableMap := AList.update key v (variableMap c)\<rparr>"

definition setCollection :: "string \<Rightarrow> 'c \<Rightarrow> ('c, 'v) VariableCache \<Rightarrow> ('c, 'v) VariableCache" where
  "setCollection name col c = c\<lparr>collectionMap := AList.update name col (collectionMap c)\<rparr>"

definition removeCollection :: "string \<Rightarrow> ('c, 'v) VariableCache \<Rightarrow> ('c, 'v) VariableCache" where
  "removeCollection name c =
     (let cm = AList.delete name (collectionMap c);
          keysToRemove = filter (\<lambda>key. startsWith key (name @ ''/'')) (map fst (variableMap c))
      in c\<lparr>collectionMap := cm,
            variableMap := fold AList.delete keysToRemove (variableMap c)\<rparr>)"

section \<open>Numbers\<close>

text \<open>
  A number of the source is an IEEE double. The model has the rationals, and takes the
  numbers that come in (of the host, of the Document) to be doubles. An arithmetic
  operation of the source is the exact operation followed by the rounding to the nearest
  double, ties to the even significand: \<open>fl\<close>. Comparisons, \<open>Math.round\<close> and
  \<open>Math.floor\<close> are exact on doubles. The infinities, \<open>NaN\<close> and the negative zero
  are not modelled: beyond the largest double \<open>fl\<close> still rounds to 53 bits.
\<close>

function bitLength :: "int \<Rightarrow> int" where
  "bitLength n = (if n \<le> 0 then 0 else 1 + bitLength (n div 2))"
  by pat_completeness auto

termination bitLength
  by (relation "measure nat") auto

definition pow2 :: "int \<Rightarrow> rat" where
  "pow2 k = (if 0 \<le> k then 2 ^ nat k else 1 / 2 ^ nat (- k))"

text \<open>The exponent \<open>e\<close> of a positive number: \<open>2 ^ e \<le> x < 2 ^ (e + 1)\<close>.\<close>

definition exponentOf :: "rat \<Rightarrow> int" where
  "exponentOf x =
     (let d = bitLength (fst (quotient_of x)) - bitLength (snd (quotient_of x))
      in if pow2 d \<le> x then d else d - 1)"

definition roundHalfEven :: "rat \<Rightarrow> int" where
  "roundHalfEven m =
     (let n = \<lfloor>m\<rfloor>; f = m - of_int n
      in if f < 1 / 2 then n else if 1 / 2 < f then n + 1 else if even n then n else n + 1)"

definition fl :: "rat \<Rightarrow> rat" where
  "fl x =
     (if x = 0 then 0
      else (let q = max (exponentOf \<bar>x\<bar> - 52) (- 1074);
                y = of_int (roundHalfEven (\<bar>x\<bar> / pow2 q)) * pow2 q
            in if x < 0 then - y else y))"

section \<open>The host object model\<close>

text \<open>
  The plugin works on live objects of the host (collections, modes, variables, styles). A
  live object is modelled by its identifier; reading a property of a handle is a lookup in
  the host state. Identifiers are opaque in the host and modelled as natural numbers.
\<close>

datatype VariableResolvedDataType = COLOR | FLOAT | STRING | BOOLEAN

record RGBA =
  rgb_r :: rat
  rgb_g :: rat
  rgb_b :: rat
  rgb_a :: rat

datatype VariableValue =
    VARIABLE_ALIAS nat
  | ColorValue RGBA
  | FloatValue rat
  | StringValue string
  | BooleanValue bool

record Variable =
  var_id :: nat
  var_name :: string
  variableCollectionId :: nat
  resolvedType :: VariableResolvedDataType
  valuesByMode :: "(nat \<times> VariableValue) list"
  scopes :: "string list"
  description :: string

record Mode =
  modeId :: nat
  mode_name :: string

record VariableCollection =
  col_id :: nat
  col_name :: string
  modes :: "Mode list"
  variableIds :: "nat list"
  remote :: bool

text \<open>
  Styles are kept by kind and matched by name. A paint style has its paints; of a paint the
  model keeps the kind, which decides whether the export takes it, and carries the rest
  (colors, stops, image, bound variables) as an opaque text. The effects of an effect style
  and the grids of a grid style are opaque texts, and so are the metrics of a text style
  beside its font. The description of a style is a text, empty when there is none.
\<close>

datatype PaintKind = SOLID | GRADIENT | IMAGE | OTHER_PAINT

record Paint =
  paint_kind :: PaintKind
  paint_body :: string

record PaintStyle =
  ps_name :: string
  ps_description :: string
  paints :: "Paint list"

record TextStyle =
  ts_name :: string
  ts_description :: string
  fontFamily :: string
  fontStyle :: string
  ts_body :: string

record EffectStyle =
  es_name :: string
  es_description :: string
  effects :: "string list"

record GridStyle =
  gs_name :: string
  gs_description :: string
  layoutGrids :: "string list"

text \<open>
  What the host decides and the source does not show is part of the host state: the value
  that a new variable has in each mode, by type (\<open>initialColor\<close> and so on); the fonts
  that can be loaded; the image paints whose image the host finds or makes on import
  (\<open>knownImages\<close>, by the text of the paint); and the paints, effects and grids that
  the host refuses when they are assigned to a style (\<open>refusedBodies\<close>, by their text).
\<close>

record Host =
  collections :: "VariableCollection list"
  variables :: "(nat \<times> Variable) list"
  nextId :: nat
  modeLimit :: enat
  initialColor :: RGBA
  initialFloat :: rat
  initialString :: string
  initialBoolean :: bool
  availableFonts :: "(string \<times> string) list"
  knownImages :: "string list"
  refusedBodies :: "string list"
  localPaintStyles :: "PaintStyle list"
  localTextStyles :: "TextStyle list"
  localEffectStyles :: "EffectStyle list"
  localGridStyles :: "GridStyle list"

text \<open>
  The store without collections and styles. Its settings are those of the examples: a new
  variable is white, zero, the empty text or false; up to ten modes; the font Inter.
\<close>

definition emptyHost :: Host where
  "emptyHost =
     \<lparr>collections = [], variables = [], nextId = 1, modeLimit = 10,
      initialColor = \<lparr>rgb_r = 1, rgb_g = 1, rgb_b = 1, rgb_a = 1\<rparr>, initialFloat = 0,
      initialString = [], initialBoolean = False,
      availableFonts = [(''Inter'', ''Regular'')], knownImages = [], refusedBodies = [],
      localPaintStyles = [], localTextStyles = [], localEffectStyles = [],
      localGridStyles = []\<rparr>"

definition getLocalVariableCollectionsAsync :: "Host \<Rightarrow> VariableCollection list" where
  "getLocalVariableCollectionsAsync h = filter (\<lambda>c. \<not> remote c) (collections h)"

definition getVariableByIdAsync :: "Host \<Rightarrow> nat \<Rightarrow> Variable option" where
  "getVariableByIdAsync h i = map_of (variables h) i"

definition getVariableCollectionByIdAsync :: "Host \<Rightarrow> nat \<Rightarrow> VariableCollection option" where
  "getVariableCollectionByIdAsync h i = find (\<lambda>c. col_id c = i) (collections h)"

definition isVariableAlias :: "VariableValue \<Rightarrow> bool" where
  "isVariableAlias v = (case v of VARIABLE_ALIAS _ \<Rightarrow> True | _ \<Rightarrow> False)"

section \<open>Eager alias resolution (resolveAliasValue)\<close>

text \<open>
  The source recurses through the alias chain with a depth bound that is a number
  parameter of default 10; its caller uses the default. The bound is modelled as an
  integer. The function is defined as a partial function, so that its termination is a
  theorem and not an assumption of the definition: \<open>None\<close> would be a run that never
  returns. The empty string that the source returns when it gives up is
  \<open>StringValue []\<close>.
\<close>

partial_function (option) resolveAliasValue ::
  "Host \<Rightarrow> Variable \<Rightarrow> nat \<Rightarrow> int \<Rightarrow> VariableValue option" where
  "resolveAliasValue h variable preferredModeId maxDepth =
     (if maxDepth \<le> 0 then Some (StringValue '''')
      else
        (case (case map_of (valuesByMode variable) preferredModeId of
                 Some x \<Rightarrow> Some x
               | None \<Rightarrow> (case valuesByMode variable of [] \<Rightarrow> None | kv # _ \<Rightarrow> Some (snd kv)))
         of
           None \<Rightarrow> Some (StringValue '''')
         | Some (VARIABLE_ALIAS i) \<Rightarrow>
             (case getVariableByIdAsync h i of
                Some nextVar \<Rightarrow> resolveAliasValue h nextVar preferredModeId (maxDepth - 1)
              | None \<Rightarrow> Some (StringValue ''''))
         | Some value \<Rightarrow> Some value))"

declare resolveAliasValue.simps [code]

text \<open>
  A store in which every chain of aliases goes on for ever: every variable has a value,
  and each of its values is an alias of a variable of the store. Such a store is finite, so
  every chain runs into a cycle.
\<close>

definition aliasesOnly :: "Host \<Rightarrow> Variable \<Rightarrow> bool" where
  "aliasesOnly h v =
     (valuesByMode v \<noteq> [] \<and>
      list_all (\<lambda>kv. case snd kv of
                        VARIABLE_ALIAS i \<Rightarrow> getVariableByIdAsync h i \<noteq> None
                      | _ \<Rightarrow> False) (valuesByMode v))"

definition cyclicStore :: "Host \<Rightarrow> bool" where
  "cyclicStore h = list_all (\<lambda>iv. aliasesOnly h (snd iv)) (variables h)"

definition cycleVar :: "nat \<Rightarrow> nat \<Rightarrow> Variable" where
  "cycleVar i target =
     \<lparr>var_id = i, var_name = ''v'', variableCollectionId = 0, resolvedType = COLOR,
      valuesByMode = [(0, VARIABLE_ALIAS target)], scopes = [], description = ''''\<rparr>"

definition cycleHost :: Host where
  "cycleHost =
     emptyHost
       \<lparr>collections :=
          [\<lparr>col_id = 0, col_name = ''C'', modes = [\<lparr>modeId = 0, mode_name = ''Mode 1''\<rparr>],
            variableIds = [1, 2], remote = False\<rparr>],
        variables := [(1, cycleVar 1 2), (2, cycleVar 2 1)],
        nextId := 3\<rparr>"
section \<open>The Document\<close>

text \<open>
  The portable form is a JSON array. An object is modelled by the list of its entries in
  the order in which \<open>Object.keys\<close> enumerates them; the keys of one object are
  distinct. The fields of a value record are named \<open>$type\<close>, \<open>$value\<close> and so on
  in the source and \<open>d_type\<close>, \<open>d_value\<close> here.

  A \<open>$value\<close> that is an object is a color: the bundle that the export writes, with
  \<open>hex\<close>, \<open>rgb\<close>, \<open>css\<close>, \<open>hsl\<close> and \<open>hsb\<close>, or an object with the
  components \<open>r g b\<close>, \<open>h s l\<close> or \<open>h s b\<close>. The model keeps the keys that the
  source looks at, each with its value when it is there: \<open>hex\<close> is a text, the
  components are numbers. Of \<open>rgb\<close> only the presence is ever read; \<open>css\<close>,
  \<open>hsl\<close> and \<open>hsb\<close> are not read at all and are left out.
\<close>

record RgbColor =
  rc_r :: int
  rc_g :: int
  rc_b :: int
  rc_a :: "rat option"

record ColorObject =
  co_hex :: "string option"
  co_rgb :: "RgbColor option"
  co_r :: "rat option"
  co_g :: "rat option"
  co_b :: "rat option"
  co_a :: "rat option"
  co_h :: "rat option"
  co_s :: "rat option"
  co_l :: "rat option"

datatype JsonValue =
    JString string
  | JNumber rat
  | JBoolean bool
  | JColor ColorObject

text \<open>The object with no key that the source looks at, and the bundle with one hex text.\<close>

definition noColor :: ColorObject where
  "noColor =
     \<lparr>co_hex = None, co_rgb = None, co_r = None, co_g = None, co_b = None, co_a = None,
      co_h = None, co_s = None, co_l = None\<rparr>"

record ExportVariableValue =
  d_scopes :: "string list"
  d_type :: string
  d_description :: "string option"
  d_value :: JsonValue
  d_collectionName :: "string option"
  d_libraryRef :: "string option"
  d_localValue :: "JsonValue option"

datatype Tree =
    Leaf ExportVariableValue
  | Group "(string \<times> Tree) list"

type_synonym NestedVariables = "(string \<times> Tree) list"

type_synonym ModeVariables = "(string \<times> NestedVariables) list"

record CollectionContent =
  cc_modes :: ModeVariables
  d_originalName :: "string option"

text \<open>
  The exported form of a paint style: its paints, the color of its first solid paint
  (\<open>color\<close>, which older Documents have in the place of the paints; it is kept as the
  text of that paint) and the description. The other kinds are exported with the fields
  that their styles have, and the same records serve.
\<close>

record ExportColorStyle =
  ecs_name :: string
  ecs_paints :: "Paint list"
  ecs_color :: "string option"
  ecs_description :: string

record StylesExport =
  colorStyles :: "ExportColorStyle list option"
  textStyles :: "TextStyle list option"
  effectStyles :: "EffectStyle list option"
  gridStyles :: "GridStyle list option"

datatype Item =
    CollectionItem string CollectionContent
  | StylesItem StylesExport

type_synonym ExportFormat = "Item list"

text \<open>
  \<open>isExportVariableValue\<close> holds of the objects that have a \<open>$type\<close>: the leaves.
\<close>

fun isExportVariableValue :: "Tree \<Rightarrow> bool" where
  "isExportVariableValue (Leaf _) = True"
| "isExportVariableValue (Group _) = False"

fun countNestedVariables :: "NestedVariables \<Rightarrow> nat \<Rightarrow> nat" where
  "countNestedVariables [] count = count"
| "countNestedVariables ((key, Leaf v) # rest) count = countNestedVariables rest (count + 1)"
| "countNestedVariables ((key, Group obj) # rest) count =
     countNestedVariables rest (countNestedVariables obj count)"

type_synonym FlatVariable = "string \<times> ExportVariableValue"

fun flattenVariables :: "NestedVariables \<Rightarrow> string \<Rightarrow> FlatVariable list" where
  "flattenVariables [] prefix = []"
| "flattenVariables ((key, Leaf v) # rest) prefix =
     ((if prefix \<noteq> [] then prefix @ ''/'' @ key else key), v) # flattenVariables rest prefix"
| "flattenVariables ((key, Group obj) # rest) prefix =
     flattenVariables obj (if prefix \<noteq> [] then prefix @ ''/'' @ key else key)
       @ flattenVariables rest prefix"

section \<open>Plan validation (validateImportAgainstPlan)\<close>

text \<open>Decimal rendering of a count inside a template string.\<close>

definition digitChar :: "nat \<Rightarrow> char" where
  "digitChar d = char_of (48 + d)"

fun showNat :: "nat \<Rightarrow> string" where
  "showNat n = (if n < 10 then [digitChar n] else showNat (n div 10) @ [digitChar (n mod 10)])"

datatype FigmaPlan = starter | professional | organization | enterprise

record PlanLimits =
  plan :: FigmaPlan
  maxModesPerCollection :: enat
  canPublishLibraries :: bool
  hasVariableRestApi :: bool

fun PLAN_LIMITS :: "FigmaPlan \<Rightarrow> PlanLimits" where
  "PLAN_LIMITS starter =
     \<lparr>plan = starter, maxModesPerCollection = 1, canPublishLibraries = False,
      hasVariableRestApi = False\<rparr>"
| "PLAN_LIMITS professional =
     \<lparr>plan = professional, maxModesPerCollection = 10, canPublishLibraries = True,
      hasVariableRestApi = False\<rparr>"
| "PLAN_LIMITS organization =
     \<lparr>plan = organization, maxModesPerCollection = 20, canPublishLibraries = True,
      hasVariableRestApi = False\<rparr>"
| "PLAN_LIMITS enterprise =
     \<lparr>plan = enterprise, maxModesPerCollection = \<infinity>, canPublishLibraries = True,
      hasVariableRestApi = True\<rparr>"

definition MAX_VARIABLES_PER_COLLECTION :: nat where
  "MAX_VARIABLES_PER_COLLECTION = 5000"

definition detectCurrentPlan :: "Host \<Rightarrow> PlanLimits" where
  "detectCurrentPlan h =
     (let maxModesFound =
            fold (\<lambda>collection m. if length (modes collection) > m then length (modes collection) else m)
              (getLocalVariableCollectionsAsync h) 1;
          inferredPlan =
            (if maxModesFound > 20 then enterprise
             else if maxModesFound > 10 then organization
             else if maxModesFound > 1 then professional
             else professional)
      in PLAN_LIMITS inferredPlan)"

definition getLocalVariablesAsync :: "Host \<Rightarrow> Variable list" where
  "getLocalVariablesAsync h =
     filter (\<lambda>v. variableCollectionId v \<in> col_id ` set (getLocalVariableCollectionsAsync h))
       (map snd (variables h))"

record ExistingInfo =
  ex_collections :: nat
  ex_maxModesInAnyCollection :: nat
  ex_totalVariables :: nat

record ImportingInfo =
  im_collections :: nat
  im_maxModesInAnyCollection :: nat
  im_totalVariables :: nat
  collectionsExceedingModeLimit :: "string list"

record LibraryDependencies =
  variableCount :: nat
  lib_collections :: "string list"

record FontDependencies =
  styleCount :: nat
  fonts :: "(string \<times> string) list"

record PlanValidation =
  currentPlan :: PlanLimits
  existing :: ExistingInfo
  importing :: ImportingInfo
  warnings :: "string list"
  errors :: "string list"
  canImport :: bool
  libraryDependencies :: "LibraryDependencies option"
  fontDependencies :: "FontDependencies option"

text \<open>The entries of the Document that are not the styles entry.\<close>

fun importCollectionsOf :: "ExportFormat \<Rightarrow> (string \<times> CollectionContent) list" where
  "importCollectionsOf [] = []"
| "importCollectionsOf (StylesItem s # rest) = importCollectionsOf rest"
| "importCollectionsOf (CollectionItem colName colData # rest) =
     (colName, colData) # importCollectionsOf rest"

definition showLimit :: "enat \<Rightarrow> string" where
  "showLimit l = (case l of enat n \<Rightarrow> showNat n | \<infinity> \<Rightarrow> [CHR 0xE2, CHR 0x88, CHR 0x9E])"

definition exceedingMessage :: "string \<Rightarrow> nat \<Rightarrow> enat \<Rightarrow> string" where
  "exceedingMessage colName modeCount limit =
     ''\"'' @ colName @ ''\" ('' @ showNat modeCount @ '' modes, limit: '' @ showLimit limit @ '')''"

definition limitErrorMessage :: "string \<Rightarrow> nat \<Rightarrow> string" where
  "limitErrorMessage colName varCount =
     ''Collection \"'' @ colName @ ''\" has '' @ showNat varCount
       @ '' variables, exceeds limit of '' @ showNat MAX_VARIABLES_PER_COLLECTION"

text \<open>The first loop: largest mode count, total of variables, collections over the mode limit.\<close>

fun analyzeCollections ::
  "PlanLimits \<Rightarrow> (string \<times> CollectionContent) list \<Rightarrow> nat \<times> nat \<times> string list
     \<Rightarrow> nat \<times> nat \<times> string list" where
  "analyzeCollections cp [] acc = acc"
| "analyzeCollections cp ((colName, colData) # rest) (importingMaxModes, importingTotalVars, exceeding) =
     (let modeCount = length (cc_modes colData);
          importingMaxModes' = (if modeCount > importingMaxModes then modeCount else importingMaxModes);
          exceeding' =
            (if enat modeCount > maxModesPerCollection cp
             then exceeding @ [exceedingMessage colName modeCount (maxModesPerCollection cp)]
             else exceeding);
          importingTotalVars' =
            (case cc_modes colData of
               [] \<Rightarrow> importingTotalVars
             | firstMode # _ \<Rightarrow> importingTotalVars + countNestedVariables (snd firstMode) 0)
      in analyzeCollections cp rest (importingMaxModes', importingTotalVars', exceeding'))"

text \<open>The second loop: the hard limit on the variables of one collection.\<close>

fun checkVariableCounts :: "(string \<times> CollectionContent) list \<Rightarrow> string list \<Rightarrow> string list" where
  "checkVariableCounts [] errs = errs"
| "checkVariableCounts ((colName, colData) # rest) errs =
     (let varCount = (case cc_modes colData of
                        [] \<Rightarrow> 0
                      | firstMode # _ \<Rightarrow> countNestedVariables (snd firstMode) 0)
      in checkVariableCounts rest
           (if varCount > MAX_VARIABLES_PER_COLLECTION
            then errs @ [limitErrorMessage colName varCount] else errs))"

text \<open>The third loop: aliases that point into a library, over every mode of every collection.\<close>

fun scanLibraryRefs :: "FlatVariable list \<Rightarrow> string list \<times> nat \<Rightarrow> string list \<times> nat" where
  "scanLibraryRefs [] acc = acc"
| "scanLibraryRefs ((path, v) # rest) (libraryCollections, libraryVarCount) =
     scanLibraryRefs rest
       (case (d_libraryRef v, d_collectionName v) of
          (Some ref, Some cn) \<Rightarrow>
            if ref \<noteq> [] \<and> cn \<noteq> []
            then (if cn \<in> set libraryCollections then libraryCollections
                  else libraryCollections @ [cn], libraryVarCount + 1)
            else (libraryCollections, libraryVarCount)
        | _ \<Rightarrow> (libraryCollections, libraryVarCount))"

definition detectLibraryDependencies ::
  "(string \<times> CollectionContent) list \<Rightarrow> string list \<times> nat" where
  "detectLibraryDependencies cols =
     fold (\<lambda>(colName, colData) acc.
             fold (\<lambda>(modeName, modeData) acc'. scanLibraryRefs (flattenVariables modeData []) acc')
               (cc_modes colData) acc)
       cols ([], 0)"

text \<open>The fourth loop: the fonts that the text styles of the Document need.\<close>

fun scanFonts :: "TextStyle list \<Rightarrow> (string \<times> string) list \<times> nat \<Rightarrow> (string \<times> string) list \<times> nat" where
  "scanFonts [] acc = acc"
| "scanFonts (textStyle # rest) (fontDeps, fontStyleCount) =
     scanFonts rest
       ((if list_ex (\<lambda>f. fst f @ ''|'' @ snd f = fontFamily textStyle @ ''|'' @ fontStyle textStyle) fontDeps
         then fontDeps else fontDeps @ [(fontFamily textStyle, fontStyle textStyle)]),
        fontStyleCount + 1)"

fun detectFontDependencies :: "ExportFormat \<Rightarrow> (string \<times> string) list \<times> nat
     \<Rightarrow> (string \<times> string) list \<times> nat" where
  "detectFontDependencies [] acc = acc"
| "detectFontDependencies (CollectionItem n c # rest) acc = detectFontDependencies rest acc"
| "detectFontDependencies (StylesItem stylesData # rest) acc =
     detectFontDependencies rest
       (case textStyles stylesData of None \<Rightarrow> acc | Some ts \<Rightarrow> scanFonts ts acc)"

definition validateImportAgainstPlan ::
  "Host \<Rightarrow> ExportFormat \<Rightarrow> FigmaPlan option \<Rightarrow> PlanValidation" where
  "validateImportAgainstPlan h importData planOverride =
     (let cp = (case planOverride of Some p \<Rightarrow> PLAN_LIMITS p | None \<Rightarrow> detectCurrentPlan h);
          cols = getLocalVariableCollectionsAsync h;
          existingMaxModes = fold (\<lambda>col m. max m (length (modes col))) cols 0;
          existingTotalVars = length (getLocalVariablesAsync h);
          importCollections = importCollectionsOf importData;
          (importingMaxModes, importingTotalVars, exceeding) =
            analyzeCollections cp importCollections (0, 0, []);
          errs = checkVariableCounts importCollections [];
          warns = (if importingTotalVars > 1000
                   then [''Large import: '' @ showNat importingTotalVars
                           @ '' variables. This may take a moment.'']
                   else [])
                  @ (if length importCollections > 10
                     then [''Importing '' @ showNat (length importCollections)
                             @ '' collections. Consider importing in batches.'']
                     else []);
          (libraryCollections, libraryVarCount) = detectLibraryDependencies importCollections;
          (fontDeps, fontStyleCount) = detectFontDependencies importData ([], 0)
      in \<lparr>currentPlan = cp,
          existing = \<lparr>ex_collections = length cols,
                       ex_maxModesInAnyCollection = existingMaxModes,
                       ex_totalVariables = existingTotalVars\<rparr>,
          importing = \<lparr>im_collections = length importCollections,
                        im_maxModesInAnyCollection = importingMaxModes,
                        im_totalVariables = importingTotalVars,
                        collectionsExceedingModeLimit = exceeding\<rparr>,
          warnings = warns,
          errors = errs,
          canImport = (length errs = 0),
          libraryDependencies =
            (if length libraryCollections > 0
             then Some \<lparr>variableCount = libraryVarCount, lib_collections = libraryCollections\<rparr>
             else None),
          fontDependencies =
            (if length fontDeps > 0
             then Some \<lparr>styleCount = fontStyleCount, fonts = fontDeps\<rparr>
             else None)\<rparr>)"

text \<open>
  The variable count of a collection entry, as the validator takes it: the leaves of the
  tree of the first mode.
\<close>

definition firstModeVariableCount :: "CollectionContent \<Rightarrow> nat" where
  "firstModeVariableCount colData =
     (case cc_modes colData of [] \<Rightarrow> 0 | firstMode # _ \<Rightarrow> countNestedVariables (snd firstMode) 0)"


text \<open>
  The variable paths of a collection entry, as the import flattens them from the tree of
  the first mode, and the variable paths that a Document holds for the collection of one
  name, over all the entries of that name: the import puts them into one collection.
\<close>

definition entryPaths :: "CollectionContent \<Rightarrow> string list" where
  "entryPaths colData =
     (case cc_modes colData of [] \<Rightarrow> [] | firstMode # _ \<Rightarrow> map fst (flattenVariables (snd firstMode) []))"

section \<open>Errors\<close>

text \<open>
  An exception is a value. Using a handle whose object the host no longer has (it was
  removed) is an error of the host, as is a value that does not fit the type of the
  variable it is written to.
\<close>

datatype error =
    SyntaxError
  | TypeError string
  | HostError string

definition bindE :: "error + 'a \<Rightarrow> ('a \<Rightarrow> error + 'b) \<Rightarrow> error + 'b" where
  "bindE m f = (case m of Inl e \<Rightarrow> Inl e | Inr x \<Rightarrow> f x)"

definition variableOf :: "Host \<Rightarrow> nat \<Rightarrow> error + Variable" where
  "variableOf h i =
     (case getVariableByIdAsync h i of
        None \<Rightarrow> Inl (HostError ''variable removed'')
      | Some v \<Rightarrow> Inr v)"

definition collectionOf :: "Host \<Rightarrow> nat \<Rightarrow> error + VariableCollection" where
  "collectionOf h i =
     (case getVariableCollectionByIdAsync h i of
        None \<Rightarrow> Inl (HostError ''collection removed'')
      | Some c \<Rightarrow> Inr c)"

section \<open>Rebuilding the cache\<close>

type_synonym Cache = "(nat, nat) VariableCache"

definition rebuild :: "Host \<Rightarrow> Cache \<Rightarrow> Cache" where
  "rebuild h c =
     fold (\<lambda>col c'.
             fold (\<lambda>varId c''.
                     case getVariableByIdAsync h varId of
                       Some v \<Rightarrow> setVariable (col_name col @ ''/'' @ var_name v) varId c''
                     | None \<Rightarrow> c'')
               (variableIds col) (setCollection (col_name col) (col_id col) c'))
       (getLocalVariableCollectionsAsync h)
       (c\<lparr>collectionMap := [], variableMap := []\<rparr>)"

definition initialize :: "Host \<Rightarrow> Cache \<Rightarrow> Cache" where
  "initialize h c = (if initialized c then c else (rebuild h c)\<lparr>initialized := True\<rparr>)"

section \<open>Color to hex\<close>

definition hexDigit :: "nat \<Rightarrow> char" where
  "hexDigit d = (if d < 10 then char_of (48 + d) else char_of (87 + d))"

fun toString16nat :: "nat \<Rightarrow> string" where
  "toString16nat n =
     (if n < 16 then [hexDigit n] else toString16nat (n div 16) @ [hexDigit (n mod 16)])"

definition toString16 :: "int \<Rightarrow> string" where
  "toString16 n = (if n < 0 then ''-'' @ toString16nat (nat (- n)) else toString16nat (nat n))"

definition padStart2 :: "string \<Rightarrow> string" where
  "padStart2 s = replicate (2 - length s) (CHR ''0'') @ s"

text \<open>\<open>Math.round\<close> rounds half up.\<close>

definition mathRound :: "rat \<Rightarrow> int" where
  "mathRound x = \<lfloor>x + 1 / 2\<rfloor>"

definition toHexByte :: "rat \<Rightarrow> string" where
  "toHexByte v = padStart2 (toString16 (mathRound (fl (v * 255))))"

definition toHex :: "RGBA \<Rightarrow> string" where
  "toHex color =
     (let hx = ''#'' @ toHexByte (rgb_r color) @ toHexByte (rgb_g color) @ toHexByte (rgb_b color)
      in if rgb_a color < 1 then hx @ toHexByte (rgb_a color) else hx)"

text \<open>\<open>toLowerCase\<close>, on the ASCII letters.\<close>

definition lowerChar :: "char \<Rightarrow> char" where
  "lowerChar ch =
     (if (65::nat) \<le> of_char ch \<and> of_char ch \<le> (90::nat)
      then char_of (of_char ch + (32::nat)) else ch)"

definition toLowerCase :: "string \<Rightarrow> string" where
  "toLowerCase s = map lowerChar s"

section \<open>The diff engine (computeImportDiff)\<close>

text \<open>
  \<open>String(x)\<close> of a number is the decimal text of a double, which the model does not
  render: \<open>NumberText x\<close> stands for it.
\<close>

datatype DisplayText = Text string | NumberText rat

record ModifiedVariable =
  mv_collection :: string
  mv_path :: string
  oldValue :: DisplayText
  newValue :: DisplayText

record DiffSummary =
  collectionsNew :: nat
  collectionsModified :: nat
  collectionsUnchanged :: nat
  variablesNew :: nat
  variablesModified :: nat
  variablesUnchanged :: nat
  stylesNew :: nat
  stylesModified :: nat

record ImportDiffResult =
  newCollections :: "string list"
  modifiedCollections :: "string list"
  unchangedCollections :: "string list"
  newVariables :: "(string \<times> string) list"
  modifiedVariables :: "ModifiedVariable list"
  unchangedVariables :: nat
  newStyles :: "(string \<times> string) list"
  modifiedStyles :: "(string \<times> string) list"
  summary :: DiffSummary

definition emptyDiffResult :: ImportDiffResult where
  "emptyDiffResult =
     \<lparr>newCollections = [], modifiedCollections = [], unchangedCollections = [],
      newVariables = [], modifiedVariables = [], unchangedVariables = 0,
      newStyles = [], modifiedStyles = [],
      summary = \<lparr>collectionsNew = 0, collectionsModified = 0, collectionsUnchanged = 0,
                  variablesNew = 0, variablesModified = 0, variablesUnchanged = 0,
                  stylesNew = 0, stylesModified = 0\<rparr>\<rparr>"

fun valuesAreDifferent :: "VariableValue option \<Rightarrow> JsonValue \<Rightarrow> bool" where
  "valuesAreDifferent None imported = True"
| "valuesAreDifferent (Some (VARIABLE_ALIAS i)) imported =
     (if (case imported of JString s \<Rightarrow> startsWith s ''{'' | _ \<Rightarrow> False) then True else True)"
| "valuesAreDifferent (Some (ColorValue c)) (JColor e) =
     (case co_hex e of
        Some hx \<Rightarrow> toLowerCase (toHex c) \<noteq> toLowerCase hx
      | None \<Rightarrow> True)"
| "valuesAreDifferent (Some (ColorValue c)) imported = True"
| "valuesAreDifferent (Some (FloatValue x)) (JNumber y) = (x \<noteq> y)"
| "valuesAreDifferent (Some (StringValue s)) (JString t) = (s \<noteq> t)"
| "valuesAreDifferent (Some (BooleanValue p)) (JBoolean q) = (p \<noteq> q)"
| "valuesAreDifferent (Some ex) imported = True"

fun formatExisting :: "VariableValue option \<Rightarrow> DisplayText" where
  "formatExisting None = Text ''undefined''"
| "formatExisting (Some (ColorValue c)) = Text (toHex c)"
| "formatExisting (Some (VARIABLE_ALIAS i)) = Text ''{alias}''"
| "formatExisting (Some (FloatValue x)) = NumberText x"
| "formatExisting (Some (StringValue s)) = Text s"
| "formatExisting (Some (BooleanValue p)) = Text (if p then ''true'' else ''false'')"

text \<open>
  The display text of an incoming color object: its \<open>hex\<close>; without one the hex text
  of its components \<open>r g b\<close>, where a missing component renders as \<open>NaN\<close>; and
  \<open>[object Object]\<close> for any other object.
\<close>

definition toHexByteOf :: "rat option \<Rightarrow> string" where
  "toHexByteOf v = (case v of Some x \<Rightarrow> toHexByte x | None \<Rightarrow> ''NaN'')"

fun formatImported :: "JsonValue \<Rightarrow> DisplayText" where
  "formatImported (JColor e) =
     (case co_hex e of
        Some hx \<Rightarrow> Text hx
      | None \<Rightarrow>
          (case co_r e of
             Some x \<Rightarrow>
               Text (''#'' @ toHexByte x @ toHexByteOf (co_g e) @ toHexByteOf (co_b e)
                     @ (case co_a e of
                          Some al \<Rightarrow> if al < 1 then toHexByte al else []
                        | None \<Rightarrow> []))
           | None \<Rightarrow> Text ''[object Object]''))"
| "formatImported (JNumber x) = NumberText x"
| "formatImported (JString s) = Text s"
| "formatImported (JBoolean p) = Text (if p then ''true'' else ''false'')"

text \<open>The body of the loop of \<open>checkVariablesDiff\<close> for a key whose value is a leaf.\<close>

definition checkLeafDiff ::
  "Host \<Rightarrow> Cache \<Rightarrow> nat \<Rightarrow> string \<Rightarrow> string \<Rightarrow> ExportVariableValue \<Rightarrow> ImportDiffResult
     \<Rightarrow> error + ImportDiffResult" where
  "checkLeafDiff h cache mId collectionName currentPath v result =
     (case getVariable cache (collectionName @ ''/'' @ currentPath) of
        None \<Rightarrow>
          Inr (result\<lparr>newVariables := newVariables result @ [(collectionName, currentPath)],
                      summary := (summary result)\<lparr>variablesNew := variablesNew (summary result) + 1\<rparr>\<rparr>)
      | Some existingVar \<Rightarrow>
          bindE (variableOf h existingVar) (\<lambda>var.
            let existingValue = map_of (valuesByMode var) mId;
                importValue = d_value v
            in if valuesAreDifferent existingValue importValue
               then Inr (result\<lparr>modifiedVariables := modifiedVariables result @
                                    [\<lparr>mv_collection = collectionName, mv_path = currentPath,
                                      oldValue = formatExisting existingValue,
                                      newValue = formatImported importValue\<rparr>],
                                  summary := (summary result)\<lparr>variablesModified :=
                                    variablesModified (summary result) + 1\<rparr>\<rparr>)
               else Inr (result\<lparr>unchangedVariables := unchangedVariables result + 1,
                                  summary := (summary result)\<lparr>variablesUnchanged :=
                                    variablesUnchanged (summary result) + 1\<rparr>\<rparr>)))"

fun checkVariablesDiff ::
  "Host \<Rightarrow> Cache \<Rightarrow> nat \<Rightarrow> NestedVariables \<Rightarrow> string \<Rightarrow> string \<Rightarrow> ImportDiffResult
     \<Rightarrow> error + ImportDiffResult" where
  "checkVariablesDiff h cache mId [] collectionName path result = Inr result"
| "checkVariablesDiff h cache mId ((key, Leaf v) # rest) collectionName path result =
     bindE (checkLeafDiff h cache mId collectionName
              (if path \<noteq> [] then path @ ''/'' @ key else key) v result)
       (checkVariablesDiff h cache mId rest collectionName path)"
| "checkVariablesDiff h cache mId ((key, Group obj) # rest) collectionName path result =
     bindE (checkVariablesDiff h cache mId obj collectionName
              (if path \<noteq> [] then path @ ''/'' @ key else key) result)
       (checkVariablesDiff h cache mId rest collectionName path)"

fun countVarsInNestedObj :: "NestedVariables \<Rightarrow> nat" where
  "countVarsInNestedObj [] = 0"
| "countVarsInNestedObj ((key, Leaf v) # rest) = 1 + countVarsInNestedObj rest"
| "countVarsInNestedObj ((key, Group obj) # rest) = countVarsInNestedObj obj + countVarsInNestedObj rest"

definition countVariablesInCollection :: "ModeVariables \<Rightarrow> nat" where
  "countVariablesInCollection ms =
     (case ms of [] \<Rightarrow> 0 | firstMode # _ \<Rightarrow> countVarsInNestedObj (snd firstMode))"

fun diffStyleNames ::
  "string \<Rightarrow> string list \<Rightarrow> string list \<Rightarrow> ImportDiffResult \<Rightarrow> ImportDiffResult" where
  "diffStyleNames kind existingNames [] result = result"
| "diffStyleNames kind existingNames (n # rest) result =
     diffStyleNames kind existingNames rest
       (if n \<in> set existingNames
        then result\<lparr>modifiedStyles := modifiedStyles result @ [(kind, n)],
                    summary := (summary result)\<lparr>stylesModified := stylesModified (summary result) + 1\<rparr>\<rparr>
        else result\<lparr>newStyles := newStyles result @ [(kind, n)],
                    summary := (summary result)\<lparr>stylesNew := stylesNew (summary result) + 1\<rparr>\<rparr>)"

definition computeStylesDiff :: "Host \<Rightarrow> StylesExport \<Rightarrow> ImportDiffResult \<Rightarrow> ImportDiffResult" where
  "computeStylesDiff h stylesData result =
     (let r1 = (case colorStyles stylesData of
                  None \<Rightarrow> result
                | Some ss \<Rightarrow> diffStyleNames ''color'' (map ps_name (localPaintStyles h))
                              (map ecs_name ss) result);
          r2 = (case textStyles stylesData of
                  None \<Rightarrow> r1
                | Some ss \<Rightarrow> diffStyleNames ''text'' (map ts_name (localTextStyles h))
                              (map ts_name ss) r1);
          r3 = (case effectStyles stylesData of
                  None \<Rightarrow> r2
                | Some ss \<Rightarrow> diffStyleNames ''effect'' (map es_name (localEffectStyles h))
                              (map es_name ss) r2)
      in (case gridStyles stylesData of
            None \<Rightarrow> r3
          | Some ss \<Rightarrow> diffStyleNames ''grid'' (map gs_name (localGridStyles h))
                        (map gs_name ss) r3))"

text \<open>
  The loop over the modes of one collection entry. It carries \<open>hasModifications\<close>, which
  the source sets for a mode name that the live collection does not have.
\<close>

fun diffModes ::
  "Host \<Rightarrow> Cache \<Rightarrow> VariableCollection \<Rightarrow> string \<Rightarrow> ModeVariables \<Rightarrow> bool \<times> ImportDiffResult
     \<Rightarrow> error + bool \<times> ImportDiffResult" where
  "diffModes h cache existingCollection collectionName [] acc = Inr acc"
| "diffModes h cache existingCollection collectionName ((modeName, modeData) # rest)
     (hasModifications, result) =
     (case find (\<lambda>m. mode_name m = modeName) (modes existingCollection) of
        None \<Rightarrow> diffModes h cache existingCollection collectionName rest (True, result)
      | Some mode \<Rightarrow>
          bindE (checkVariablesDiff h cache (modeId mode) modeData collectionName [] result)
            (\<lambda>result'. diffModes h cache existingCollection collectionName rest
                          (hasModifications, result')))"

definition diffCollection ::
  "Host \<Rightarrow> Cache \<Rightarrow> string \<Rightarrow> CollectionContent \<Rightarrow> ImportDiffResult \<Rightarrow> error + ImportDiffResult" where
  "diffCollection h cache jsonCollectionName collectionContent result =
     (let collectionName = (case d_originalName collectionContent of
                              Some n \<Rightarrow> if n \<noteq> [] then n else jsonCollectionName
                            | None \<Rightarrow> jsonCollectionName)
      in case getCollection cache collectionName of
           None \<Rightarrow>
             Inr (result\<lparr>newCollections := newCollections result @ [collectionName],
                         summary := (summary result)\<lparr>
                           collectionsNew := collectionsNew (summary result) + 1,
                           variablesNew := variablesNew (summary result)
                             + countVariablesInCollection (cc_modes collectionContent)\<rparr>\<rparr>)
         | Some existingHandle \<Rightarrow>
             bindE (collectionOf h existingHandle) (\<lambda>existingCollection.
               bindE (diffModes h cache existingCollection collectionName
                        (cc_modes collectionContent) (False, result))
                 (\<lambda>(hasModifications, result').
                    if list_ex (\<lambda>v. mv_collection v = collectionName) (modifiedVariables result')
                       \<or> list_ex (\<lambda>v. fst v = collectionName) (newVariables result')
                    then Inr (result'\<lparr>modifiedCollections :=
                                 modifiedCollections result' @ [collectionName],
                               summary := (summary result')\<lparr>collectionsModified :=
                                 collectionsModified (summary result') + 1\<rparr>\<rparr>)
                    else Inr (result'\<lparr>unchangedCollections :=
                                 unchangedCollections result' @ [collectionName],
                               summary := (summary result')\<lparr>collectionsUnchanged :=
                                 collectionsUnchanged (summary result') + 1\<rparr>\<rparr>))))"

fun diffItems :: "Host \<Rightarrow> Cache \<Rightarrow> ExportFormat \<Rightarrow> ImportDiffResult \<Rightarrow> error + ImportDiffResult" where
  "diffItems h cache [] result = Inr result"
| "diffItems h cache (StylesItem stylesData # rest) result =
     diffItems h cache rest (computeStylesDiff h stylesData result)"
| "diffItems h cache (CollectionItem jsonCollectionName collectionContent # rest) result =
     bindE (diffCollection h cache jsonCollectionName collectionContent result)
       (diffItems h cache rest)"

text \<open>
  \<open>computeImportDiff\<close> initializes the cache and classifies the Document; it returns
  the cache with the result, and has no host state to return.
\<close>

definition computeImportDiff :: "Host \<Rightarrow> Cache \<Rightarrow> ExportFormat \<Rightarrow> Cache \<times> (error + ImportDiffResult)" where
  "computeImportDiff h cache importData =
     (let cache' = initialize h cache
      in (cache', diffItems h cache' importData emptyDiffResult))"

text \<open>
  A live store with the collection \<open>Colors\<close>, its one mode \<open>Light\<close> and the color
  variable \<open>Brand\<close> of value \<open>#FF0000\<close>, and Documents to compare with it.
\<close>

definition brandHost :: Host where
  "brandHost =
     emptyHost
       \<lparr>collections :=
          [\<lparr>col_id = 1, col_name = ''Colors'', modes = [\<lparr>modeId = 10, mode_name = ''Light''\<rparr>],
            variableIds = [2], remote = False\<rparr>],
        variables :=
          [(2, \<lparr>var_id = 2, var_name = ''Brand'', variableCollectionId = 1, resolvedType = COLOR,
                 valuesByMode = [(10, ColorValue \<lparr>rgb_r = 1, rgb_g = 0, rgb_b = 0, rgb_a = 1\<rparr>)],
                 scopes = [''ALL_SCOPES''], description = ''''\<rparr>)],
        nextId := 11\<rparr>"

definition emptyCache :: Cache where
  "emptyCache = \<lparr>collectionMap = [], variableMap = [], initialized = False\<rparr>"

text \<open>
  A color bundle with the given hex text. Its \<open>rgb\<close> is there, as in every bundle that
  the export writes; what it holds is never read.
\<close>

definition hexColor :: "string \<Rightarrow> ColorObject" where
  "hexColor hx =
     noColor\<lparr>co_hex := Some hx, co_rgb := Some \<lparr>rc_r = 0, rc_g = 0, rc_b = 0, rc_a = None\<rparr>\<rparr>"

definition colorLeaf :: "string \<Rightarrow> Tree" where
  "colorLeaf hx =
     Leaf \<lparr>d_scopes = [''ALL_SCOPES''], d_type = ''color'', d_description = None,
           d_value = JColor (hexColor hx), d_collectionName = None, d_libraryRef = None,
           d_localValue = None\<rparr>"

definition brandContent :: "string \<Rightarrow> string \<Rightarrow> CollectionContent" where
  "brandContent key hx =
     \<lparr>cc_modes = [(''Light'', [(key, colorLeaf hx)])], d_originalName = None\<rparr>"

definition brandDocument :: "string \<Rightarrow> string \<Rightarrow> ExportFormat" where
  "brandDocument key hx = [CollectionItem ''Colors'' (brandContent key hx)]"

definition extraModeDocument :: ExportFormat where
  "extraModeDocument =
     [CollectionItem ''Colors''
        \<lparr>cc_modes = [(''Light'', [(''Brand'', colorLeaf ''#FF0000'')]),
                     (''Dark'', [(''Brand'', colorLeaf ''#00FF00'')])],
         d_originalName = None\<rparr>]"

text \<open>The value that a live variable has for a mode.\<close>

definition liveValue :: "Host \<Rightarrow> nat \<Rightarrow> nat \<Rightarrow> VariableValue option" where
  "liveValue h i mId =
     (case getVariableByIdAsync h i of None \<Rightarrow> None | Some var \<Rightarrow> map_of (valuesByMode var) mId)"

definition importedCollectionName :: "string \<Rightarrow> CollectionContent \<Rightarrow> string" where
  "importedCollectionName jsonCollectionName collectionContent =
     (case d_originalName collectionContent of
        Some n \<Rightarrow> if n \<noteq> [] then n else jsonCollectionName
      | None \<Rightarrow> jsonCollectionName)"
section \<open>Operations of the host\<close>

text \<open>
  What the plugin relies on, and what the repository's notes say of the host: a new
  collection has one default mode; a collection takes modes up to the limit of the plan
  (\<open>modeLimit\<close>); removing a collection removes its variables; a value must fit the
  resolved type of the variable, and an alias must point to a live variable of the same
  resolved type (the error "Mismatched variable resolved type" of the notes); an
  operation through the handle of a removed object fails. An operation that fails leaves
  the host as it was.

  Every variable has one value for each mode of its collection. A new variable has the
  initial value of its type in every mode; a new mode gives every variable of the
  collection the value that it has in the first mode of the collection; a value is set
  only for a mode of the collection of the variable. The host refuses a variable name
  with \<open>.\<close>, \<open>{\<close> or \<open>}\<close>.
\<close>

definition createVariableCollection :: "string \<Rightarrow> Host \<Rightarrow> error + nat \<times> Host" where
  "createVariableCollection name h =
     Inr (nextId h,
          h\<lparr>collections := collections h @
                [\<lparr>col_id = nextId h, col_name = name,
                  modes = [\<lparr>modeId = nextId h + 1, mode_name = ''Mode 1''\<rparr>],
                  variableIds = [], remote = False\<rparr>],
             nextId := nextId h + 2\<rparr>)"

definition collection_remove :: "nat \<Rightarrow> Host \<Rightarrow> error + Host" where
  "collection_remove cid h =
     (case getVariableCollectionByIdAsync h cid of
        None \<Rightarrow> Inl (HostError ''collection removed'')
      | Some c \<Rightarrow>
          Inr (h\<lparr>collections := filter (\<lambda>c'. col_id c' \<noteq> cid) (collections h),
                 variables := filter (\<lambda>iv. variableCollectionId (snd iv) \<noteq> cid) (variables h)\<rparr>))"

definition variable_remove :: "nat \<Rightarrow> Host \<Rightarrow> error + Host" where
  "variable_remove vid h =
     (case getVariableByIdAsync h vid of
        None \<Rightarrow> Inl (HostError ''variable removed'')
      | Some v \<Rightarrow>
          Inr (h\<lparr>collections :=
                   map (\<lambda>c. c\<lparr>variableIds := filter (\<lambda>i. i \<noteq> vid) (variableIds c)\<rparr>)
                     (collections h),
                 variables := AList.delete vid (variables h)\<rparr>))"

definition updateCollection :: "VariableCollection \<Rightarrow> Host \<Rightarrow> Host" where
  "updateCollection c h =
     h\<lparr>collections := map (\<lambda>c'. if col_id c' = col_id c then c else c') (collections h)\<rparr>"

definition renameMode :: "nat \<Rightarrow> nat \<Rightarrow> string \<Rightarrow> Host \<Rightarrow> error + Host" where
  "renameMode cid mid newName h =
     (case getVariableCollectionByIdAsync h cid of
        None \<Rightarrow> Inl (HostError ''collection removed'')
      | Some c \<Rightarrow>
          if mid \<in> modeId ` set (modes c)
          then Inr (updateCollection
                      (c\<lparr>modes := map (\<lambda>m. if modeId m = mid then m\<lparr>mode_name := newName\<rparr> else m)
                                     (modes c)\<rparr>) h)
          else Inl (HostError ''no such mode''))"

definition initialValue :: "Host \<Rightarrow> VariableResolvedDataType \<Rightarrow> VariableValue" where
  "initialValue h ty =
     (case ty of
        COLOR \<Rightarrow> ColorValue (initialColor h)
      | FLOAT \<Rightarrow> FloatValue (initialFloat h)
      | STRING \<Rightarrow> StringValue (initialString h)
      | BOOLEAN \<Rightarrow> BooleanValue (initialBoolean h))"

text \<open>The value of a variable in the first mode of its collection, for a new mode.\<close>

definition defaultModeValue :: "Host \<Rightarrow> VariableCollection \<Rightarrow> Variable \<Rightarrow> VariableValue" where
  "defaultModeValue h c v =
     (case (case modes c of [] \<Rightarrow> None | m # _ \<Rightarrow> map_of (valuesByMode v) (modeId m)) of
        Some val \<Rightarrow> val
      | None \<Rightarrow> initialValue h (resolvedType v))"

definition addMode :: "nat \<Rightarrow> string \<Rightarrow> Host \<Rightarrow> error + nat \<times> Host" where
  "addMode cid name h =
     (case getVariableCollectionByIdAsync h cid of
        None \<Rightarrow> Inl (HostError ''collection removed'')
      | Some c \<Rightarrow>
          if enat (length (modes c)) \<ge> modeLimit h
          then Inl (HostError ''mode limit reached'')
          else Inr (nextId h,
                    (updateCollection
                       (c\<lparr>modes := modes c @ [\<lparr>modeId = nextId h, mode_name = name\<rparr>]\<rparr>) h)
                      \<lparr>variables :=
                         map (\<lambda>iv. if variableCollectionId (snd iv) = cid
                                    then (fst iv,
                                          (snd iv)\<lparr>valuesByMode := valuesByMode (snd iv) @
                                                     [(nextId h, defaultModeValue h c (snd iv))]\<rparr>)
                                    else iv)
                           (variables h),
                       nextId := nextId h + 1\<rparr>))"

definition validVariableName :: "string \<Rightarrow> bool" where
  "validVariableName name =
     (CHR ''.'' \<notin> set name \<and> CHR ''{'' \<notin> set name \<and> CHR ''}'' \<notin> set name)"

definition createVariable ::
  "string \<Rightarrow> nat \<Rightarrow> VariableResolvedDataType \<Rightarrow> Host \<Rightarrow> error + nat \<times> Host" where
  "createVariable name cid ty h =
     (case getVariableCollectionByIdAsync h cid of
        None \<Rightarrow> Inl (HostError ''collection removed'')
      | Some c \<Rightarrow>
          if \<not> validVariableName name then Inl (HostError ''invalid variable name'')
          else
            Inr (nextId h,
                 (updateCollection (c\<lparr>variableIds := variableIds c @ [nextId h]\<rparr>) h)
                   \<lparr>variables := variables h @
                      [(nextId h,
                        \<lparr>var_id = nextId h, var_name = name, variableCollectionId = cid,
                         resolvedType = ty,
                         valuesByMode = map (\<lambda>m. (modeId m, initialValue h ty)) (modes c),
                         scopes = [''ALL_SCOPES''], description = ''''\<rparr>)],
                    nextId := nextId h + 1\<rparr>))"

definition fitsType :: "Host \<Rightarrow> VariableResolvedDataType \<Rightarrow> VariableValue \<Rightarrow> bool" where
  "fitsType h ty val =
     (case val of
        ColorValue c \<Rightarrow> ty = COLOR
      | FloatValue x \<Rightarrow> ty = FLOAT
      | StringValue s \<Rightarrow> ty = STRING
      | BooleanValue p \<Rightarrow> ty = BOOLEAN
      | VARIABLE_ALIAS t \<Rightarrow>
          (case getVariableByIdAsync h t of None \<Rightarrow> False | Some tv \<Rightarrow> resolvedType tv = ty))"

text \<open>The modes of the collection of a variable.\<close>

definition modesOfVariable :: "Host \<Rightarrow> Variable \<Rightarrow> nat list" where
  "modesOfVariable h v =
     (case getVariableCollectionByIdAsync h (variableCollectionId v) of
        None \<Rightarrow> []
      | Some c \<Rightarrow> map modeId (modes c))"

definition setValueForMode :: "nat \<Rightarrow> nat \<Rightarrow> VariableValue \<Rightarrow> Host \<Rightarrow> error + Host" where
  "setValueForMode vid mid val h =
     (case getVariableByIdAsync h vid of
        None \<Rightarrow> Inl (HostError ''variable removed'')
      | Some v \<Rightarrow>
          if mid \<notin> set (modesOfVariable h v) then Inl (HostError ''no such mode'')
          else if fitsType h (resolvedType v) val
          then Inr (h\<lparr>variables :=
                        AList.update vid (v\<lparr>valuesByMode := AList.update mid val (valuesByMode v)\<rparr>)
                          (variables h)\<rparr>)
          else Inl (HostError ''Mismatched variable resolved type''))"

definition setDescription :: "nat \<Rightarrow> string \<Rightarrow> Host \<Rightarrow> error + Host" where
  "setDescription vid text h =
     (case getVariableByIdAsync h vid of
        None \<Rightarrow> Inl (HostError ''variable removed'')
      | Some v \<Rightarrow> Inr (h\<lparr>variables := AList.update vid (v\<lparr>description := text\<rparr>) (variables h)\<rparr>))"

definition setScopes :: "nat \<Rightarrow> string list \<Rightarrow> Host \<Rightarrow> error + Host" where
  "setScopes vid sc h =
     (case getVariableByIdAsync h vid of
        None \<Rightarrow> Inl (HostError ''variable removed'')
      | Some v \<Rightarrow> Inr (h\<lparr>variables := AList.update vid (v\<lparr>scopes := sc\<rparr>) (variables h)\<rparr>))"

section \<open>Parsing a color (ColorParser)\<close>

definition isHexDigit :: "char \<Rightarrow> bool" where
  "isHexDigit ch =
     (let n = (of_char ch :: nat)
      in (48 \<le> n \<and> n \<le> 57) \<or> (97 \<le> n \<and> n \<le> 102) \<or> (65 \<le> n \<and> n \<le> 70))"

definition hexDigitValue :: "char \<Rightarrow> nat" where
  "hexDigitValue ch =
     (let n = (of_char ch :: nat)
      in if n \<le> 57 then n - 48 else if n \<le> 70 then n - 55 else n - 87)"

text \<open>\<open>parseInt(hex, 16) / 255\<close> of two hex digits.\<close>

definition fromHexByte :: "string \<Rightarrow> rat" where
  "fromHexByte s = fl (of_nat (foldl (\<lambda>n ch. 16 * n + hexDigitValue ch) 0 s) / 255)"

text \<open>
  The two patterns of \<open>fromHex\<close>: an optional \<open>#\<close>, then eight or six hex digits, and
  nothing else.
\<close>

definition black :: RGBA where
  "black = \<lparr>rgb_r = 0, rgb_g = 0, rgb_b = 0, rgb_a = 1\<rparr>"

definition fromHex :: "string \<Rightarrow> RGBA" where
  "fromHex s =
     (let ds = (case s of ch # rest \<Rightarrow> if ch = CHR ''#'' then rest else s | [] \<Rightarrow> s)
      in if length ds = 8 \<and> list_all isHexDigit ds
         then \<lparr>rgb_r = fromHexByte (take 2 ds), rgb_g = fromHexByte (take 2 (drop 2 ds)),
               rgb_b = fromHexByte (take 2 (drop 4 ds)), rgb_a = fromHexByte (take 2 (drop 6 ds))\<rparr>
         else if length ds = 6 \<and> list_all isHexDigit ds
         then \<lparr>rgb_r = fromHexByte (take 2 ds), rgb_g = fromHexByte (take 2 (drop 2 ds)),
               rgb_b = fromHexByte (take 2 (drop 4 ds)), rgb_a = 1\<rparr>
         else black)"

definition orOne :: "rat option \<Rightarrow> rat" where
  "orOne a = (case a of Some x \<Rightarrow> x | None \<Rightarrow> 1)"

definition fromRgb255 :: "rat \<Rightarrow> rat \<Rightarrow> rat \<Rightarrow> rat option \<Rightarrow> RGBA" where
  "fromRgb255 r g b a =
     \<lparr>rgb_r = fl (r / 255), rgb_g = fl (g / 255), rgb_b = fl (b / 255), rgb_a = orOne a\<rparr>"

definition hue2rgb :: "rat \<Rightarrow> rat \<Rightarrow> rat \<Rightarrow> rat" where
  "hue2rgb p q t =
     (let tt = (if t < 0 then fl (t + 1) else if 1 < t then fl (t - 1) else t)
      in if tt < fl (1 / 6) then fl (p + fl (fl (fl (q - p) * 6) * tt))
         else if tt < fl (1 / 2) then q
         else if tt < fl (2 / 3) then fl (p + fl (fl (fl (q - p) * fl (fl (2 / 3) - tt)) * 6))
         else p)"

definition fromHsl :: "rat \<Rightarrow> rat \<Rightarrow> rat \<Rightarrow> rat option \<Rightarrow> RGBA" where
  "fromHsl hh ss ll a =
     (let h = fl (hh / 360); s = fl (ss / 100); l = fl (ll / 100)
      in if s = 0 then \<lparr>rgb_r = l, rgb_g = l, rgb_b = l, rgb_a = orOne a\<rparr>
         else (let q = (if l < 1 / 2 then fl (l * fl (1 + s)) else fl (fl (l + s) - fl (l * s)));
                   p = fl (fl (2 * l) - q)
               in \<lparr>rgb_r = hue2rgb p q (fl (h + fl (1 / 3))), rgb_g = hue2rgb p q h,
                    rgb_b = hue2rgb p q (fl (h - fl (1 / 3))), rgb_a = orOne a\<rparr>))"

text \<open>
  \<open>fromHsb\<close> takes the components from a table by the index \<open>i % 6\<close>, which is
  negative for a negative hue that is not a multiple of 360; there the table has no entry
  and the source throws.
\<close>

definition fromHsb :: "rat \<Rightarrow> rat \<Rightarrow> rat \<Rightarrow> rat option \<Rightarrow> error + RGBA" where
  "fromHsb hh ss bb a =
     (let h = fl (hh / 360); s = fl (ss / 100); v = fl (bb / 100);
          h6 = fl (h * 6);
          i = \<lfloor>h6\<rfloor>;
          f = fl (h6 - of_int i);
          p = fl (v * fl (1 - s));
          q = fl (v * fl (1 - fl (f * s)));
          t = fl (v * fl (1 - fl (fl (1 - f) * s)))
      in if i < 0 \<and> i mod 6 \<noteq> 0 then Inl (TypeError ''undefined is not iterable'')
         else (case [(v, t, p), (q, v, p), (p, v, t), (p, q, v), (t, p, v), (v, p, q)] ! nat (i mod 6) of
                 (r, g, b) \<Rightarrow> Inr \<lparr>rgb_r = r, rgb_g = g, rgb_b = b, rgb_a = orOne a\<rparr>))"

text \<open>
  \<open>ColorParser.parse\<close> of a \<open>$value\<close>. An object with \<open>hex\<close> and \<open>rgb\<close> is read
  by its hex text; then come the objects with \<open>r g b\<close>, with \<open>h s l\<close> and with
  \<open>h s b\<close>. A text that starts with \<open>rgb\<close> or \<open>hsl\<close> goes to \<open>fromCss\<close>, which
  is a parameter here: what is proved holds for every reading of CSS colors. Any other
  text goes to \<open>fromHex\<close>; everything else is black.
\<close>

definition ColorParser_parse :: "(string \<Rightarrow> RGBA) \<Rightarrow> JsonValue \<Rightarrow> error + RGBA" where
  "ColorParser_parse fromCss color =
     (case color of
        JColor e \<Rightarrow>
          (case (co_hex e, co_rgb e) of
             (Some hx, Some rgbValue) \<Rightarrow> Inr (fromHex hx)
           | _ \<Rightarrow>
               (case (co_r e, co_g e, co_b e) of
                  (Some r, Some g, Some b) \<Rightarrow>
                    if r \<le> 1 \<and> g \<le> 1 \<and> b \<le> 1
                    then Inr \<lparr>rgb_r = r, rgb_g = g, rgb_b = b, rgb_a = orOne (co_a e)\<rparr>
                    else Inr (fromRgb255 r g b (co_a e))
                | _ \<Rightarrow>
                    (case (co_h e, co_s e, co_l e) of
                       (Some h, Some s, Some l) \<Rightarrow> Inr (fromHsl h s l (co_a e))
                     | _ \<Rightarrow>
                         (case (co_h e, co_s e, co_b e) of
                            (Some h, Some s, Some b) \<Rightarrow> fromHsb h s b (co_a e)
                          | _ \<Rightarrow> Inr black))))
      | JString s \<Rightarrow>
          if startsWith s ''rgb'' \<or> startsWith s ''hsl'' then Inr (fromCss s) else Inr (fromHex s)
      | _ \<Rightarrow> Inr black)"

definition round2 :: "rat \<Rightarrow> rat" where
  "round2 v = fl (of_int (mathRound (fl (v * 100))) / 100)"
section \<open>The import reconciler (importVariables)\<close>

record CustomMerge =
  cm_clearVariables :: bool
  cm_clearStyles :: bool

record ImportOptions =
  merge :: bool
  overwrite :: bool
  importStyles_opt :: bool
  clearFirst :: bool
  customMerge :: "CustomMerge option"
  collectionBehaviors :: "(string \<times> string) list option"

record PendingAlias =
  pa_variable :: nat
  pa_modeId :: nat
  aliasPath :: string
  aliasCollection :: string
  fallbackValue :: ExportVariableValue

record ImportStats =
  collectionsCreated :: nat
  variablesCreated :: nat
  variablesUpdated :: nat
  variablesSkipped :: nat
  stylesCreated :: nat
  stylesUpdated :: nat

text \<open>What \<open>Logger.send\<close> posts to the user interface.\<close>

datatype Message =
    import_complete ImportStats
  | import_rolling_back string
  | import_rollback_complete string string
  | import_rollback_failed string string string
  | error_message string
  | clear_complete string

text \<open>
  The state that the import threads through: host, cache, counters and the aliases queued
  for the second pass. A step that throws returns the error with the state it leaves
  behind, since what was written before the exception stays written.
\<close>

record ImportState =
  st_host :: Host
  st_cache :: Cache
  createdCollections :: nat
  createdVariables :: nat
  updatedVariables :: nat
  skippedVariables :: nat
  allPendingAliases :: "PendingAlias list"

definition andThen :: "error option \<times> 's \<Rightarrow> ('s \<Rightarrow> error option \<times> 's) \<Rightarrow> error option \<times> 's" where
  "andThen m f = (case fst m of None \<Rightarrow> f (snd m) | Some e \<Rightarrow> m)"

fun forEach :: "('x \<Rightarrow> 's \<Rightarrow> error option \<times> 's) \<Rightarrow> 'x list \<Rightarrow> 's \<Rightarrow> error option \<times> 's" where
  "forEach f [] s = (None, s)"
| "forEach f (x # xs) s = andThen (f x s) (forEach f xs)"

text \<open>
  \<open>toFigmaType\<close> looks the type up in an object literal and takes \<open>STRING\<close> when
  the lookup gives nothing. The lookup also finds what every object inherits: for the name
  of a member of \<open>Object.prototype\<close> it gives that member, which is not a type, and the
  host refuses it when the variable is made. The result is \<open>None\<close> for these names.
\<close>

definition objectPrototypeMembers :: "string list" where
  "objectPrototypeMembers =
     [''constructor'', ''hasOwnProperty'', ''isPrototypeOf'', ''propertyIsEnumerable'',
      ''toLocaleString'', ''toString'', ''valueOf'', ''__proto__'', ''__defineGetter__'',
      ''__defineSetter__'', ''__lookupGetter__'', ''__lookupSetter__'']"

definition toFigmaType :: "string \<Rightarrow> VariableResolvedDataType option" where
  "toFigmaType ty =
     (if ty = ''color'' then Some COLOR
      else if ty = ''float'' then Some FLOAT
      else if ty = ''string'' then Some STRING
      else if ty = ''boolean'' then Some BOOLEAN
      else if ty \<in> set objectPrototypeMembers then None
      else Some STRING)"

definition arrayToScopes :: "string list \<Rightarrow> string list" where
  "arrayToScopes arr = (if ''ALL_SCOPES'' \<in> set arr then [''ALL_SCOPES''] else arr)"

text \<open>\<open>String.split\<close> on one character: the pieces between its occurrences, at least one.\<close>

fun splitOn :: "char \<Rightarrow> string \<Rightarrow> string list" where
  "splitOn sep [] = [[]]"
| "splitOn sep (ch # rest) =
     (if ch = sep then [] # splitOn sep rest
      else (case splitOn sep rest of
              piece # pieces \<Rightarrow> (ch # piece) # pieces
            | [] \<Rightarrow> [[ch]]))"

fun walkPath :: "Tree option \<Rightarrow> string list \<Rightarrow> ExportVariableValue option" where
  "walkPath current [] = (case current of Some (Leaf v) \<Rightarrow> Some v | _ \<Rightarrow> None)"
| "walkPath current (part # parts) =
     (case current of
        None \<Rightarrow> None
      | Some (Leaf v) \<Rightarrow> None
      | Some (Group obj) \<Rightarrow> walkPath (map_of obj part) parts)"

definition getValueAtPath :: "NestedVariables \<Rightarrow> string \<Rightarrow> ExportVariableValue option" where
  "getValueAtPath obj path = walkPath (Some (Group obj)) (splitOn (CHR ''/'') path)"

text \<open>
  The value that \<open>setRawValue\<close> hands to the host for a leaf that is not of type color:
  the \<open>$value\<close> as it is. An object with the components \<open>r g b\<close> and no other key
  but \<open>a\<close> is a color of the host; every other color object is neither a color of the
  host nor an alias, and the host rejects it. For a leaf of type color the value is what
  \<open>ColorParser.parse\<close> gives; \<open>None\<close> is the case in which nothing reaches the host
  or the host rejects what it is given, and the try block of \<open>setRawValue\<close> passes on.
\<close>

fun primitiveValue :: "JsonValue \<Rightarrow> VariableValue option" where
  "primitiveValue (JString s) = Some (StringValue s)"
| "primitiveValue (JNumber x) = Some (FloatValue x)"
| "primitiveValue (JBoolean p) = Some (BooleanValue p)"
| "primitiveValue (JColor e) =
     (case (co_r e, co_g e, co_b e) of
        (Some r, Some g, Some b) \<Rightarrow>
          if co_hex e = None \<and> co_rgb e = None \<and> co_h e = None \<and> co_s e = None \<and> co_l e = None
          then Some (ColorValue \<lparr>rgb_r = r, rgb_g = g, rgb_b = b, rgb_a = orOne (co_a e)\<rparr>)
          else None
      | _ \<Rightarrow> None)"

definition rawValueOf :: "(string \<Rightarrow> RGBA) \<Rightarrow> ExportVariableValue \<Rightarrow> VariableValue option" where
  "rawValueOf fromCss v =
     (if d_type v = ''color''
      then (case ColorParser_parse fromCss (d_value v) of
              Inl e \<Rightarrow> None
            | Inr rgba \<Rightarrow>
                Some (ColorValue (if rgb_a rgba < 1 then rgba\<lparr>rgb_a := round2 (rgb_a rgba)\<rparr>
                                  else rgba)))
      else primitiveValue (d_value v))"

text \<open>\<open>setRawValue\<close> catches whatever the host throws and goes on.\<close>

definition setRawValue :: "(string \<Rightarrow> RGBA) \<Rightarrow> nat \<Rightarrow> nat \<Rightarrow> ExportVariableValue \<Rightarrow> Host \<Rightarrow> Host" where
  "setRawValue fromCss variable mId v h =
     (case rawValueOf fromCss v of
        None \<Rightarrow> h
      | Some val \<Rightarrow> (case setValueForMode variable mId val h of Inl e \<Rightarrow> h | Inr h' \<Rightarrow> h'))"

definition isAliasReference :: "JsonValue \<Rightarrow> bool" where
  "isAliasReference v = (case v of JString s \<Rightarrow> startsWith s ''{'' | _ \<Rightarrow> False)"

definition aliasPathOf :: "JsonValue \<Rightarrow> string" where
  "aliasPathOf v =
     (case v of
        JString s \<Rightarrow> map (\<lambda>ch. if ch = CHR ''.'' then CHR ''/'' else ch) (butlast (tl s))
      | _ \<Rightarrow> [])"

text \<open>
  The body of the loop over the mode names for one variable: a literal is written at once;
  an alias reference is queued, and the same leaf is handed to \<open>setRawValue\<close> as the
  temporary value.
\<close>

definition setModeValue ::
  "(string \<Rightarrow> RGBA) \<Rightarrow> string \<Rightarrow> ModeVariables \<Rightarrow> (string \<times> nat) list \<Rightarrow> nat \<Rightarrow> string \<Rightarrow> string
     \<Rightarrow> Host \<times> PendingAlias list \<Rightarrow> Host \<times> PendingAlias list" where
  "setModeValue fromCss collectionName ms modeMap variable path modeName hp =
     (case map_of modeMap modeName of
        None \<Rightarrow> hp
      | Some mId \<Rightarrow>
          (case (case map_of ms modeName of None \<Rightarrow> None | Some t \<Rightarrow> getValueAtPath t path) of
             None \<Rightarrow> hp
           | Some modeValue \<Rightarrow>
               if isAliasReference (d_value modeValue)
               then (setRawValue fromCss variable mId modeValue (fst hp),
                     snd hp @
                       [\<lparr>pa_variable = variable, pa_modeId = mId,
                         aliasPath = aliasPathOf (d_value modeValue),
                         aliasCollection =
                           (case d_collectionName modeValue of
                              Some n \<Rightarrow> if n \<noteq> [] then n else collectionName
                            | None \<Rightarrow> collectionName),
                         fallbackValue = modeValue\<rparr>])
               else (setRawValue fromCss variable mId modeValue (fst hp), snd hp)))"

text \<open>
  The body of the loop over the flattened paths of one collection entry, in two parts. It
  works on the state and on the aliases queued for this collection. The second part is what
  the body does once it has the variable: description, scopes, the values of the modes,
  and the entry of the cache.
\<close>

definition writeVariable ::
  "(string \<Rightarrow> RGBA) \<Rightarrow> string \<Rightarrow> ModeVariables \<Rightarrow> string list \<Rightarrow> (string \<times> nat) list
     \<Rightarrow> FlatVariable \<Rightarrow> nat
     \<Rightarrow> ImportState \<times> PendingAlias list \<Rightarrow> error option \<times> ImportState \<times> PendingAlias list" where
  "writeVariable fromCss collectionName ms modeNames modeMap pv variable sp =
     (let st = fst sp; pendingAliases = snd sp; path = fst pv; v = snd pv
      in case (case d_description v of
                 Some text \<Rightarrow> if text \<noteq> [] then setDescription variable text (st_host st)
                              else Inr (st_host st)
               | None \<Rightarrow> Inr (st_host st)) of
           Inl e \<Rightarrow> (Some e, st, pendingAliases)
         | Inr h1 \<Rightarrow>
             (let h2 = (case setScopes variable (arrayToScopes (d_scopes v)) h1 of
                          Inl e \<Rightarrow> h1 | Inr h' \<Rightarrow> h');
                  hp = fold (setModeValue fromCss collectionName ms modeMap variable path)
                         modeNames (h2, pendingAliases)
              in (None,
                  st\<lparr>st_host := fst hp,
                     st_cache := setVariable (collectionName @ ''/'' @ path) variable (st_cache st)\<rparr>,
                  snd hp)))"

definition importVariablePath ::
  "(string \<Rightarrow> RGBA) \<Rightarrow> ImportOptions \<Rightarrow> string \<Rightarrow> nat \<Rightarrow> ModeVariables \<Rightarrow> string list
     \<Rightarrow> (string \<times> nat) list \<Rightarrow> FlatVariable
     \<Rightarrow> ImportState \<times> PendingAlias list \<Rightarrow> error option \<times> ImportState \<times> PendingAlias list" where
  "importVariablePath fromCss options collectionName collection ms modeNames modeMap pv sp =
     (let st = fst sp; pendingAliases = snd sp;
          path = fst pv; v = snd pv;
          fullPath = collectionName @ ''/'' @ path
      in case getVariable (st_cache st) fullPath of
           Some existingVar \<Rightarrow>
             if \<not> overwrite options
             then (None, st\<lparr>skippedVariables := skippedVariables st + 1\<rparr>, pendingAliases)
             else writeVariable fromCss collectionName ms modeNames modeMap pv existingVar
                    (st\<lparr>updatedVariables := updatedVariables st + 1\<rparr>, pendingAliases)
         | None \<Rightarrow>
             (case (case toFigmaType (d_type v) of
                      None \<Rightarrow> Inl (HostError ''invalid resolved type'')
                    | Some ty \<Rightarrow> createVariable path collection ty (st_host st)) of
                Inl e \<Rightarrow> (None, st, pendingAliases)
              | Inr (variable, h') \<Rightarrow>
                  writeVariable fromCss collectionName ms modeNames modeMap pv variable
                    (st\<lparr>st_host := h', createdVariables := createdVariables st + 1\<rparr>,
                     pendingAliases)))"

text \<open>Adding the modes that the mode map does not have yet; a failure is logged and passed over.\<close>

fun addMissingModes :: "nat \<Rightarrow> string list \<Rightarrow> Host \<times> (string \<times> nat) list \<Rightarrow> Host \<times> (string \<times> nat) list" where
  "addMissingModes collection [] hm = hm"
| "addMissingModes collection (modeName # rest) hm =
     addMissingModes collection rest
       (if map_of (snd hm) modeName = None
        then (case addMode collection modeName (fst hm) of
                Inl e \<Rightarrow> hm
              | Inr (newModeId, h') \<Rightarrow> (h', AList.update modeName newModeId (snd hm)))
        else hm)"

definition behaviorOf :: "ImportOptions \<Rightarrow> string \<Rightarrow> string \<Rightarrow> string" where
  "behaviorOf options jsonCollectionName collectionName =
     (let look = (\<lambda>n. case collectionBehaviors options of
                         None \<Rightarrow> None
                       | Some bs \<Rightarrow> (case map_of bs n of
                                       Some bh \<Rightarrow> if bh \<noteq> [] then Some bh else None
                                     | None \<Rightarrow> None))
      in case look jsonCollectionName of
           Some bh \<Rightarrow> bh
         | None \<Rightarrow> (case look collectionName of Some bh \<Rightarrow> bh | None \<Rightarrow> ''merge''))"

text \<open>
  Modes and variables of one collection entry, once its live collection is known
  (the source from "Setup modes" to the end of the loop body). An entry without modes
  has no first mode name: the source then reads the variables of the mode
  \<open>undefined\<close> and \<open>flattenVariables\<close> throws a type error on them; a rename
  of the one mode of the collection to \<open>undefined\<close> before that is taken to be
  refused by the host, so the store is as it was.
\<close>

definition importIntoCollection ::
  "(string \<Rightarrow> RGBA) \<Rightarrow> ImportOptions \<Rightarrow> string \<Rightarrow> CollectionContent \<Rightarrow> nat \<Rightarrow> ImportState
     \<Rightarrow> error option \<times> ImportState" where
  "importIntoCollection fromCss options collectionName collectionContent collection st =
     (let modeNames = map fst (cc_modes collectionContent)
      in case collectionOf (st_host st) collection of
           Inl e \<Rightarrow> (Some e, st)
         | Inr col \<Rightarrow>
             (case modeNames of
                [] \<Rightarrow> (Some (TypeError ''Cannot convert undefined or null to object''), st)
              | firstName # _ \<Rightarrow>
                  (let modeMap0 = fold (\<lambda>m mm. AList.update (mode_name m) (modeId m) mm) (modes col) [];
                       renamed =
                         (if length (modes col) = 1 \<and> map_of modeMap0 firstName = None
                          then (case renameMode collection (modeId (hd (modes col))) firstName (st_host st) of
                                  Inl e \<Rightarrow> Inl e
                                | Inr h' \<Rightarrow>
                                    Inr (h', AList.update firstName (modeId (hd (modes col))) modeMap0))
                          else Inr (st_host st, modeMap0))
                   in case renamed of
                        Inl e \<Rightarrow> (Some e, st)
                      | Inr hm \<Rightarrow>
                          (let hm' = addMissingModes collection modeNames hm;
                               modeMap = snd hm';
                               variablePaths =
                                 flattenVariables
                                   (case map_of (cc_modes collectionContent) firstName of
                                      Some t \<Rightarrow> t | None \<Rightarrow> [])
                                   [];
                               res = forEach
                                       (\<lambda>pv sp. importVariablePath fromCss options collectionName
                                                   collection (cc_modes collectionContent) modeNames
                                                   modeMap pv sp)
                                       variablePaths (st\<lparr>st_host := fst hm'\<rparr>, [])
                           in case fst res of
                                Some e \<Rightarrow> (Some e, fst (snd res))
                              | None \<Rightarrow>
                                  (None,
                                   (fst (snd res))\<lparr>allPendingAliases :=
                                     allPendingAliases (fst (snd res)) @ snd (snd res)\<rparr>)))))"

text \<open>The body of the loop of the first pass for one collection entry.\<close>

definition importCollection ::
  "(string \<Rightarrow> RGBA) \<Rightarrow> ImportOptions \<Rightarrow> string \<times> CollectionContent \<Rightarrow> ImportState
     \<Rightarrow> error option \<times> ImportState" where
  "importCollection fromCss options entry st =
     (let jsonCollectionName = fst entry; collectionContent = snd entry;
          collectionName = importedCollectionName jsonCollectionName collectionContent;
          collectionBehavior = behaviorOf options jsonCollectionName collectionName
      in case getCollection (st_cache st) collectionName of
           Some existingCollection \<Rightarrow>
             if collectionBehavior = ''replace''
             then (case collection_remove existingCollection (st_host st) of
                     Inl e \<Rightarrow> (None, st)
                   | Inr h1 \<Rightarrow>
                       (case createVariableCollection collectionName h1 of
                          Inl e \<Rightarrow>
                            (None, st\<lparr>st_host := h1,
                                      st_cache := removeCollection collectionName (st_cache st)\<rparr>)
                        | Inr (collection, h2) \<Rightarrow>
                            importIntoCollection fromCss options collectionName collectionContent
                              collection
                              (st\<lparr>st_host := h2,
                                  st_cache := setCollection collectionName collection
                                                (removeCollection collectionName (st_cache st)),
                                  createdCollections := createdCollections st + 1\<rparr>)))
             else if \<not> merge options then (None, st)
             else importIntoCollection fromCss options collectionName collectionContent
                    existingCollection st
         | None \<Rightarrow>
             (case createVariableCollection collectionName (st_host st) of
                Inl e \<Rightarrow> (Some e, st)
              | Inr (collection, h1) \<Rightarrow>
                  importIntoCollection fromCss options collectionName collectionContent collection
                    (st\<lparr>st_host := h1,
                        st_cache := setCollection collectionName collection (st_cache st),
                        createdCollections := createdCollections st + 1\<rparr>)))"

definition pass1 ::
  "(string \<Rightarrow> RGBA) \<Rightarrow> ImportOptions \<Rightarrow> (string \<times> CollectionContent) list \<Rightarrow> ImportState
     \<Rightarrow> error option \<times> ImportState" where
  "pass1 fromCss options collectionData st = forEach (importCollection fromCss options) collectionData st"

text \<open>
  The second pass. It cannot throw: the one call of the host is inside a try block. It
  returns the host with the counts of the aliases that were set and of those that were not.
\<close>

fun pass2 :: "Cache \<Rightarrow> PendingAlias list \<Rightarrow> Host \<times> nat \<times> nat \<Rightarrow> Host \<times> nat \<times> nat" where
  "pass2 cache [] acc = acc"
| "pass2 cache (pending # rest) (h, aliasesResolved, aliasesFailed) =
     pass2 cache rest
       (case getVariable cache (aliasCollection pending @ ''/'' @ aliasPath pending) of
          Some targetVar \<Rightarrow>
            (case setValueForMode (pa_variable pending) (pa_modeId pending)
                    (VARIABLE_ALIAS targetVar) h of
               Inr h' \<Rightarrow> (h', aliasesResolved + 1, aliasesFailed)
             | Inl e \<Rightarrow> (h, aliasesResolved, aliasesFailed + 1))
        | None \<Rightarrow> (h, aliasesResolved, aliasesFailed + 1))"

section \<open>Exporting, importing and clearing styles\<close>

text \<open>
  The export of the paint styles passes over a style without paints, takes the paints that
  are solid, gradient or image, and passes over a style of which none is left. With the
  paints goes the color of the first solid paint. The other three kinds are exported
  style by style. What the export does inside a paint, effect or grid (rounding an opacity,
  rendering a color, the data of an image) is not modelled: their texts are carried over.
\<close>

definition exportedPaints :: "PaintStyle \<Rightarrow> Paint list" where
  "exportedPaints style = filter (\<lambda>p. paint_kind p \<noteq> OTHER_PAINT) (paints style)"

definition exportColorStyle :: "PaintStyle \<Rightarrow> ExportColorStyle option" where
  "exportColorStyle style =
     (if paints style = [] then None
      else if exportedPaints style = [] then None
      else Some \<lparr>ecs_name = ps_name style, ecs_paints = exportedPaints style,
                 ecs_color = map_option paint_body
                               (find (\<lambda>p. paint_kind p = SOLID) (paints style)),
                 ecs_description = ps_description style\<rparr>)"

definition ColorStyleProcessor_export :: "Host \<Rightarrow> ExportColorStyle list" where
  "ColorStyleProcessor_export h = List.map_filter exportColorStyle (localPaintStyles h)"

definition TextStyleProcessor_export :: "Host \<Rightarrow> TextStyle list" where
  "TextStyleProcessor_export h = localTextStyles h"

definition EffectStyleProcessor_export :: "Host \<Rightarrow> EffectStyle list" where
  "EffectStyleProcessor_export h = localEffectStyles h"

definition GridStyleProcessor_export :: "Host \<Rightarrow> GridStyle list" where
  "GridStyleProcessor_export h = localGridStyles h"

text \<open>
  Each style processor indexes the live styles of its kind by name before its loop (of
  two live styles with one name the later one), then for each imported style takes the
  live style of that name or creates a style, and writes the imported fields to it. A
  style that the loop created is not in the index. The first exception ends the
  processor; what was written before it stays written. The result carries the counts of
  created and updated styles.
\<close>

fun applyLast :: "('s \<Rightarrow> bool) \<Rightarrow> ('s \<Rightarrow> error option \<times> 's) \<Rightarrow> 's list \<Rightarrow> error option \<times> 's list" where
  "applyLast P f [] = (None, [])"
| "applyLast P f (s # rest) =
     (if P s \<and> \<not> list_ex P rest then (fst (f s), snd (f s) # rest)
      else (fst (applyLast P f rest), s # snd (applyLast P f rest)))"

fun importStyleList ::
  "('e \<Rightarrow> string) \<Rightarrow> ('s \<Rightarrow> string) \<Rightarrow> (string \<Rightarrow> 's) \<Rightarrow> ('e \<Rightarrow> 's \<Rightarrow> error option \<times> 's)
     \<Rightarrow> string list \<Rightarrow> 'e list \<Rightarrow> 's list \<times> nat \<times> nat \<Rightarrow> error option \<times> 's list \<times> nat \<times> nat" where
  "importStyleList exportedName nameOf newStyle write existingNames [] acc = (None, acc)"
| "importStyleList exportedName nameOf newStyle write existingNames (e # rest) (live, created, updated) =
     (if exportedName e \<in> set existingNames
      then (case applyLast (\<lambda>l. nameOf l = exportedName e) (write e) live of
              (Some err, live') \<Rightarrow> (Some err, live', created, updated + 1)
            | (None, live') \<Rightarrow>
                importStyleList exportedName nameOf newStyle write existingNames rest
                  (live', created, updated + 1))
      else (case write e (newStyle (exportedName e)) of
              (Some err, s) \<Rightarrow> (Some err, live @ [s], created + 1, updated)
            | (None, s) \<Rightarrow>
                importStyleList exportedName nameOf newStyle write existingNames rest
                  (live @ [s], created + 1, updated)))"

definition importStyles ::
  "('e \<Rightarrow> string) \<Rightarrow> ('s \<Rightarrow> string) \<Rightarrow> (string \<Rightarrow> 's) \<Rightarrow> ('e \<Rightarrow> 's \<Rightarrow> error option \<times> 's)
     \<Rightarrow> 'e list \<Rightarrow> 's list \<Rightarrow> error option \<times> 's list \<times> nat \<times> nat" where
  "importStyles exportedName nameOf newStyle write styles live =
     importStyleList exportedName nameOf newStyle write (map nameOf live) styles (live, 0, 0)"

text \<open>
  The paints that the import makes of an exported paint style: of its paints the solid
  and gradient ones and the image paints whose image the host has, or else the one solid
  paint of its \<open>color\<close>. They are assigned when there is one at least, and the host
  throws when it refuses one of them.
\<close>

definition importedPaints :: "Host \<Rightarrow> ExportColorStyle \<Rightarrow> Paint list" where
  "importedPaints h e =
     (if ecs_paints e \<noteq> []
      then filter (\<lambda>p. paint_kind p = SOLID \<or> paint_kind p = GRADIENT
                       \<or> (paint_kind p = IMAGE \<and> paint_body p \<in> set (knownImages h)))
             (ecs_paints e)
      else (case ecs_color e of
              Some c \<Rightarrow> [\<lparr>paint_kind = SOLID, paint_body = c\<rparr>]
            | None \<Rightarrow> []))"

definition newPaintStyle :: "string \<Rightarrow> PaintStyle" where
  "newPaintStyle name = \<lparr>ps_name = name, ps_description = [], paints = []\<rparr>"

definition writePaintStyle :: "Host \<Rightarrow> ExportColorStyle \<Rightarrow> PaintStyle \<Rightarrow> error option \<times> PaintStyle" where
  "writePaintStyle h e style =
     (let s1 = (if ecs_description e \<noteq> [] then style\<lparr>ps_description := ecs_description e\<rparr>
                else style)
      in if importedPaints h e = [] then (None, s1)
         else if list_ex (\<lambda>p. paint_body p \<in> set (refusedBodies h)) (importedPaints h e)
         then (Some (HostError ''invalid paint''), s1)
         else (None, s1\<lparr>paints := importedPaints h e\<rparr>))"

definition ColorStyleProcessor_importStyles ::
  "Host \<Rightarrow> ExportColorStyle list \<Rightarrow> error option \<times> PaintStyle list \<times> nat \<times> nat" where
  "ColorStyleProcessor_importStyles h styles =
     importStyles ecs_name ps_name newPaintStyle (writePaintStyle h) styles (localPaintStyles h)"

text \<open>
  A text style gets its font and metrics inside a try block, after the font is loaded: when
  the host does not have the font, the style keeps what it had. A new text style has the
  font of the host.
\<close>

definition newTextStyle :: "string \<Rightarrow> TextStyle" where
  "newTextStyle name =
     \<lparr>ts_name = name, ts_description = [], fontFamily = ''Inter'', fontStyle = ''Regular'',
      ts_body = []\<rparr>"

definition writeTextStyle :: "Host \<Rightarrow> TextStyle \<Rightarrow> TextStyle \<Rightarrow> error option \<times> TextStyle" where
  "writeTextStyle h e style =
     (let s1 = (if ts_description e \<noteq> [] then style\<lparr>ts_description := ts_description e\<rparr>
                else style)
      in if (fontFamily e, fontStyle e) \<in> set (availableFonts h)
         then (None, s1\<lparr>fontFamily := fontFamily e, fontStyle := fontStyle e, ts_body := ts_body e\<rparr>)
         else (None, s1))"

definition TextStyleProcessor_importStyles ::
  "Host \<Rightarrow> TextStyle list \<Rightarrow> error option \<times> TextStyle list \<times> nat \<times> nat" where
  "TextStyleProcessor_importStyles h styles =
     importStyles ts_name ts_name newTextStyle (writeTextStyle h) styles (localTextStyles h)"

text \<open>The effects and the grids are assigned outside every try block.\<close>

definition newEffectStyle :: "string \<Rightarrow> EffectStyle" where
  "newEffectStyle name = \<lparr>es_name = name, es_description = [], effects = []\<rparr>"

definition writeEffectStyle :: "Host \<Rightarrow> EffectStyle \<Rightarrow> EffectStyle \<Rightarrow> error option \<times> EffectStyle" where
  "writeEffectStyle h e style =
     (let s1 = (if es_description e \<noteq> [] then style\<lparr>es_description := es_description e\<rparr>
                else style)
      in if list_ex (\<lambda>b. b \<in> set (refusedBodies h)) (effects e)
         then (Some (HostError ''invalid effect''), s1)
         else (None, s1\<lparr>effects := effects e\<rparr>))"

definition EffectStyleProcessor_importStyles ::
  "Host \<Rightarrow> EffectStyle list \<Rightarrow> error option \<times> EffectStyle list \<times> nat \<times> nat" where
  "EffectStyleProcessor_importStyles h styles =
     importStyles es_name es_name newEffectStyle (writeEffectStyle h) styles (localEffectStyles h)"

definition newGridStyle :: "string \<Rightarrow> GridStyle" where
  "newGridStyle name = \<lparr>gs_name = name, gs_description = [], layoutGrids = []\<rparr>"

definition writeGridStyle :: "Host \<Rightarrow> GridStyle \<Rightarrow> GridStyle \<Rightarrow> error option \<times> GridStyle" where
  "writeGridStyle h e style =
     (let s1 = (if gs_description e \<noteq> [] then style\<lparr>gs_description := gs_description e\<rparr>
                else style)
      in if list_ex (\<lambda>b. b \<in> set (refusedBodies h)) (layoutGrids e)
         then (Some (HostError ''invalid layout grid''), s1)
         else (None, s1\<lparr>layoutGrids := layoutGrids e\<rparr>))"

definition GridStyleProcessor_importStyles ::
  "Host \<Rightarrow> GridStyle list \<Rightarrow> error option \<times> GridStyle list \<times> nat \<times> nat" where
  "GridStyleProcessor_importStyles h styles =
     importStyles gs_name gs_name newGridStyle (writeGridStyle h) styles (localGridStyles h)"

text \<open>The \<open>message\<close> of an exception, and its text in a template string.\<close>

definition errorMessage :: "error \<Rightarrow> string" where
  "errorMessage e =
     (case e of
        SyntaxError \<Rightarrow> ''Unexpected token in JSON''
      | TypeError m \<Rightarrow> m
      | HostError m \<Rightarrow> m)"

definition errorText :: "error \<Rightarrow> string" where
  "errorText e =
     (case e of
        SyntaxError \<Rightarrow> ''SyntaxError: '' @ errorMessage e
      | TypeError m \<Rightarrow> ''TypeError: '' @ errorMessage e
      | HostError m \<Rightarrow> ''Error: '' @ errorMessage e)"

text \<open>
  \<open>clearVariables\<close>: for each local collection, remove its variables and then the
  collection. The whole loop is in one try block: the first exception ends it and is
  reported, and what was removed stays removed.
\<close>

fun removeVariablesOf :: "nat list \<Rightarrow> Host \<times> nat \<Rightarrow> error option \<times> Host \<times> nat" where
  "removeVariablesOf [] hn = (None, hn)"
| "removeVariablesOf (varId # rest) (h, deletedVariables) =
     (case getVariableByIdAsync h varId of
        None \<Rightarrow> removeVariablesOf rest (h, deletedVariables)
      | Some v \<Rightarrow>
          (case variable_remove varId h of
             Inl e \<Rightarrow> (Some e, h, deletedVariables)
           | Inr h' \<Rightarrow> removeVariablesOf rest (h', deletedVariables + 1)))"

fun clearCollections ::
  "VariableCollection list \<Rightarrow> Host \<times> nat \<times> nat \<Rightarrow> error option \<times> Host \<times> nat \<times> nat" where
  "clearCollections [] acc = (None, acc)"
| "clearCollections (collection # rest) (h, deletedCollections, deletedVariables) =
     (case collectionOf h (col_id collection) of
        Inl e \<Rightarrow> (Some e, h, deletedCollections, deletedVariables)
      | Inr live \<Rightarrow>
          (case removeVariablesOf (variableIds live) (h, deletedVariables) of
             (Some e, h1, dv) \<Rightarrow> (Some e, h1, deletedCollections, dv)
           | (None, h1, dv) \<Rightarrow>
               (case collection_remove (col_id collection) h1 of
                  Inl e \<Rightarrow> (Some e, h1, deletedCollections, dv)
                | Inr h2 \<Rightarrow> clearCollections rest (h2, deletedCollections + 1, dv))))"

definition clearVariables :: "Host \<Rightarrow> Host \<times> Message list" where
  "clearVariables h =
     (case clearCollections (getLocalVariableCollectionsAsync h) (h, 0, 0) of
        (None, h', dc, dv) \<Rightarrow>
          (h', [clear_complete (showNat dc @ '' collections, '' @ showNat dv @ '' variables'')])
      | (Some e, h', dc, dv) \<Rightarrow>
          (h', [error_message (''Failed to clear variables: '' @ errorText e)]))"

definition clearStyles :: "Host \<Rightarrow> Host \<times> Message list" where
  "clearStyles h =
     (h\<lparr>localPaintStyles := [], localTextStyles := [], localEffectStyles := [],
        localGridStyles := []\<rparr>,
      [clear_complete
         (showNat (length (localPaintStyles h) + length (localTextStyles h)
                   + length (localEffectStyles h) + length (localGridStyles h)) @ '' styles'')])"

definition clearAll :: "Host \<Rightarrow> Host \<times> Message list" where
  "clearAll h =
     (let hm1 = clearVariables h; hm2 = clearStyles (fst hm1)
      in (fst hm2, snd hm1 @ snd hm2))"

section \<open>Snapshot and restore\<close>

text \<open>
  The snapshot is kept as JSON text in the source and parsed again by the restore. The
  model keeps the parsed structure. What \<open>JSON.stringify\<close> drops is dropped here as
  well: a mode without a value has a snapshot entry without \<open>value\<close>.
\<close>

datatype SnapshotValue =
    SnapAlias string string
  | SnapRaw "VariableValue option"

record VariableSnapshot =
  vs_name :: string
  vs_type :: VariableResolvedDataType
  vs_scopes :: "string list"
  vs_values :: "(string \<times> SnapshotValue) list"

record CollectionSnapshot =
  cs_name :: string
  cs_modes :: "Mode list"
  cs_variables :: "VariableSnapshot list"

record UndoSnapshot =
  snap_collections :: "CollectionSnapshot list"
  snap_styles :: StylesExport

text \<open>
  The hex text of a value that is taken for a color. Read as a color, a text, number or
  boolean has no components; the source then renders three times \<open>NaN\<close>.
\<close>

definition toHexOfValue :: "VariableValue \<Rightarrow> string" where
  "toHexOfValue val = (case val of ColorValue c \<Rightarrow> toHex c | _ \<Rightarrow> ''#NaNNaNNaN'')"

text \<open>The snapshot entry of one mode of a variable; \<open>None\<close> where the source writes none.\<close>

definition snapshotValue ::
  "Host \<Rightarrow> Variable \<Rightarrow> Mode \<Rightarrow> error + SnapshotValue option" where
  "snapshotValue h variable mode =
     (case map_of (valuesByMode variable) (modeId mode) of
        Some (VARIABLE_ALIAS aliasId) \<Rightarrow>
          (case getVariableByIdAsync h aliasId of
             None \<Rightarrow> Inr None
           | Some aliasVariable \<Rightarrow>
               Inr (Some (SnapAlias (var_name aliasVariable)
                            (case getVariableCollectionByIdAsync h (variableCollectionId aliasVariable) of
                               Some c \<Rightarrow> col_name c | None \<Rightarrow> ''''))))
      | Some val \<Rightarrow>
          (if resolvedType variable = COLOR
           then Inr (Some (SnapRaw (Some (StringValue (toHexOfValue val)))))
           else Inr (Some (SnapRaw (Some val))))
      | None \<Rightarrow>
          (if resolvedType variable = COLOR
           then Inl (TypeError ''Cannot read properties of undefined (reading 'r')'')
           else Inr (Some (SnapRaw None))))"

fun snapshotValues ::
  "Host \<Rightarrow> Variable \<Rightarrow> Mode list \<Rightarrow> (string \<times> SnapshotValue) list
     \<Rightarrow> error + (string \<times> SnapshotValue) list" where
  "snapshotValues h variable [] vals = Inr vals"
| "snapshotValues h variable (mode # rest) vals =
     bindE (snapshotValue h variable mode)
       (\<lambda>sv. snapshotValues h variable rest
                (case sv of None \<Rightarrow> vals | Some x \<Rightarrow> AList.update (mode_name mode) x vals))"

fun snapshotVariables ::
  "Host \<Rightarrow> VariableCollection \<Rightarrow> nat list \<Rightarrow> VariableSnapshot list \<Rightarrow> error + VariableSnapshot list" where
  "snapshotVariables h collection [] acc = Inr acc"
| "snapshotVariables h collection (variableId # rest) acc =
     (case getVariableByIdAsync h variableId of
        None \<Rightarrow> snapshotVariables h collection rest acc
      | Some variable \<Rightarrow>
          bindE (snapshotValues h variable (modes collection) [])
            (\<lambda>vals. snapshotVariables h collection rest
                      (acc @ [\<lparr>vs_name = var_name variable, vs_type = resolvedType variable,
                                vs_scopes = scopes variable, vs_values = vals\<rparr>])))"

fun snapshotCollections ::
  "Host \<Rightarrow> VariableCollection list \<Rightarrow> CollectionSnapshot list \<Rightarrow> error + CollectionSnapshot list" where
  "snapshotCollections h [] acc = Inr acc"
| "snapshotCollections h (collection # rest) acc =
     bindE (snapshotVariables h collection (variableIds collection) [])
       (\<lambda>vars. snapshotCollections h rest
                 (acc @ [\<lparr>cs_name = col_name collection, cs_modes = modes collection,
                           cs_variables = vars\<rparr>]))"

definition exportStyles :: "Host \<Rightarrow> StylesExport" where
  "exportStyles h =
     \<lparr>colorStyles = Some (ColorStyleProcessor_export h),
      textStyles = Some (TextStyleProcessor_export h),
      effectStyles = Some (EffectStyleProcessor_export h),
      gridStyles = Some (GridStyleProcessor_export h)\<rparr>"

definition createUndoSnapshot :: "Host \<Rightarrow> error + UndoSnapshot" where
  "createUndoSnapshot h =
     bindE (snapshotCollections h (getLocalVariableCollectionsAsync h) [])
       (\<lambda>cs. Inr \<lparr>snap_collections = cs, snap_styles = exportStyles h\<rparr>)"

text \<open>
  The restore keeps its own queue of aliases; it has no try block of its own, so every
  exception of the host ends it. Its mode map has every mode name of the snapshot, since
  the modes were just made under these names; a name that the map did not have would
  give the host an undefined mode, which is modelled as an error of the host.
\<close>

record RestoreAlias =
  ra_variable :: nat
  ra_modeId :: nat
  ra_aliasPath :: string
  ra_aliasCollection :: string

fun restoreAddModes :: "nat \<Rightarrow> Mode list \<Rightarrow> Host \<Rightarrow> error option \<times> Host" where
  "restoreAddModes collection [] h = (None, h)"
| "restoreAddModes collection (m # rest) h =
     (case addMode collection (mode_name m) h of
        Inl e \<Rightarrow> (Some e, h)
      | Inr (newModeId, h') \<Rightarrow> restoreAddModes collection rest h')"

definition restoreModeValue ::
  "(string \<Rightarrow> RGBA) \<Rightarrow> CollectionSnapshot \<Rightarrow> VariableSnapshot \<Rightarrow> (string \<times> nat) list \<Rightarrow> nat \<Rightarrow> Mode
     \<Rightarrow> Host \<times> RestoreAlias list \<Rightarrow> error option \<times> Host \<times> RestoreAlias list" where
  "restoreModeValue fromCss collSnapshot varSnapshot modeMap newVar modeSnapshot hp =
     (case map_of (vs_values varSnapshot) (mode_name modeSnapshot) of
        None \<Rightarrow> (None, hp)
      | Some modeValue \<Rightarrow>
          (case map_of modeMap (mode_name modeSnapshot) of
             None \<Rightarrow> (Some (HostError ''no such mode''), hp)
           | Some mId \<Rightarrow>
               (case modeValue of
                  SnapAlias aliasName aliasColl \<Rightarrow>
                    if aliasName \<noteq> []
                    then (None, fst hp,
                          snd hp @ [\<lparr>ra_variable = newVar, ra_modeId = mId, ra_aliasPath = aliasName,
                                     ra_aliasCollection =
                                       (if aliasColl \<noteq> [] then aliasColl else cs_name collSnapshot)\<rparr>])
                    else (None, hp)
                | SnapRaw None \<Rightarrow> (None, hp)
                | SnapRaw (Some val) \<Rightarrow>
                    (case bindE (case val of
                                   StringValue s \<Rightarrow>
                                     if vs_type varSnapshot = COLOR
                                     then bindE (ColorParser_parse fromCss (JString s))
                                            (\<lambda>c. Inr (ColorValue c))
                                     else Inr val
                                 | _ \<Rightarrow> Inr val)
                            (\<lambda>rawValue. setValueForMode newVar mId rawValue (fst hp)) of
                       Inl e \<Rightarrow> (Some e, hp)
                     | Inr h' \<Rightarrow> (None, h', snd hp)))))"

definition restoreVariable ::
  "(string \<Rightarrow> RGBA) \<Rightarrow> CollectionSnapshot \<Rightarrow> nat \<Rightarrow> (string \<times> nat) list \<Rightarrow> VariableSnapshot
     \<Rightarrow> Host \<times> RestoreAlias list \<Rightarrow> error option \<times> Host \<times> RestoreAlias list" where
  "restoreVariable fromCss collSnapshot newCollection modeMap varSnapshot hp =
     (case createVariable (vs_name varSnapshot) newCollection (vs_type varSnapshot) (fst hp) of
        Inl e \<Rightarrow> (Some e, hp)
      | Inr (newVar, h1) \<Rightarrow>
          (case (if vs_scopes varSnapshot \<noteq> [] then setScopes newVar (vs_scopes varSnapshot) h1
                 else Inr h1) of
             Inl e \<Rightarrow> (Some e, h1, snd hp)
           | Inr h2 \<Rightarrow>
               forEach (restoreModeValue fromCss collSnapshot varSnapshot modeMap newVar)
                 (cs_modes collSnapshot) (h2, snd hp)))"

definition restoreModes :: "nat \<Rightarrow> Mode list \<Rightarrow> Host \<Rightarrow> error option \<times> Host" where
  "restoreModes newCollection ms h1 =
     (case ms of
        [] \<Rightarrow> (None, h1)
      | firstMode # others \<Rightarrow>
          (case bindE (collectionOf h1 newCollection)
                  (\<lambda>col. case modes col of
                           [] \<Rightarrow> Inl (TypeError ''Cannot read properties of undefined'')
                         | m # _ \<Rightarrow> renameMode newCollection (modeId m) (mode_name firstMode) h1) of
             Inl e \<Rightarrow> (Some e, h1)
           | Inr h2 \<Rightarrow> restoreAddModes newCollection others h2))"

definition restoreCollection ::
  "(string \<Rightarrow> RGBA) \<Rightarrow> CollectionSnapshot \<Rightarrow> Host \<times> RestoreAlias list
     \<Rightarrow> error option \<times> Host \<times> RestoreAlias list" where
  "restoreCollection fromCss collSnapshot hp =
     (case createVariableCollection (cs_name collSnapshot) (fst hp) of
        Inl e \<Rightarrow> (Some e, hp)
      | Inr (newCollection, h1) \<Rightarrow>
          (let m = restoreModes newCollection (cs_modes collSnapshot) h1
           in case fst m of
                Some e \<Rightarrow> (Some e, snd m, snd hp)
              | None \<Rightarrow>
                  (case collectionOf (snd m) newCollection of
                     Inl e \<Rightarrow> (Some e, snd m, snd hp)
                   | Inr col \<Rightarrow>
                       forEach
                         (restoreVariable fromCss collSnapshot newCollection
                            (fold (\<lambda>m mm. AList.update (mode_name m) (modeId m) mm) (modes col) []))
                         (cs_variables collSnapshot) (snd m, snd hp))))"

fun restoreAliases :: "Cache \<Rightarrow> RestoreAlias list \<Rightarrow> Host \<Rightarrow> error option \<times> Host" where
  "restoreAliases cache [] h = (None, h)"
| "restoreAliases cache (alias # rest) h =
     (case getVariable cache (ra_aliasCollection alias @ ''/'' @ ra_aliasPath alias) of
        None \<Rightarrow> restoreAliases cache rest h
      | Some targetVar \<Rightarrow>
          (case setValueForMode (ra_variable alias) (ra_modeId alias) (VARIABLE_ALIAS targetVar) h of
             Inl e \<Rightarrow> (Some e, h)
           | Inr h' \<Rightarrow> restoreAliases cache rest h'))"

text \<open>
  The styles of the snapshot, kind by kind; a kind without styles is passed over. The
  first processor that throws ends the restore.
\<close>

definition restoreStyles :: "StylesExport \<Rightarrow> Host \<Rightarrow> error option \<times> Host" where
  "restoreStyles stylesData h =
     andThen
       (andThen
          (andThen
             (case colorStyles stylesData of
                Some (s # ss) \<Rightarrow>
                  (let r = ColorStyleProcessor_importStyles h (s # ss)
                   in (fst r, h\<lparr>localPaintStyles := fst (snd r)\<rparr>))
              | _ \<Rightarrow> (None, h))
             (\<lambda>h1. case textStyles stylesData of
                     Some (s # ss) \<Rightarrow>
                       (let r = TextStyleProcessor_importStyles h1 (s # ss)
                        in (fst r, h1\<lparr>localTextStyles := fst (snd r)\<rparr>))
                   | _ \<Rightarrow> (None, h1)))
          (\<lambda>h2. case effectStyles stylesData of
                  Some (s # ss) \<Rightarrow>
                    (let r = EffectStyleProcessor_importStyles h2 (s # ss)
                     in (fst r, h2\<lparr>localEffectStyles := fst (snd r)\<rparr>))
                | _ \<Rightarrow> (None, h2)))
       (\<lambda>h3. case gridStyles stylesData of
               Some (s # ss) \<Rightarrow>
                 (let r = GridStyleProcessor_importStyles h3 (s # ss)
                  in (fst r, h3\<lparr>localGridStyles := fst (snd r)\<rparr>))
             | _ \<Rightarrow> (None, h3))"

text \<open>
  \<open>restoreFromSnapshot\<close>: clear everything and rebuild the cache; create collections and
  variables with their raw values and queue the aliases; rebuild the cache and set the
  aliases; import the styles. It returns the exception that ended it, if any, with the host
  and cache as they then are, and what the clearing reported.
\<close>

definition restoreFromSnapshot ::
  "(string \<Rightarrow> RGBA) \<Rightarrow> UndoSnapshot \<Rightarrow> Host \<times> Cache \<Rightarrow> error option \<times> (Host \<times> Cache) \<times> Message list" where
  "restoreFromSnapshot fromCss snapshot hc =
     (let cleared = clearAll (fst hc);
          cache1 = rebuild (fst cleared) (snd hc);
          p1 = forEach (restoreCollection fromCss) (snap_collections snapshot) (fst cleared, [])
      in case fst p1 of
           Some e \<Rightarrow> (Some e, (fst (snd p1), cache1), snd cleared)
         | None \<Rightarrow>
             (let cache2 = rebuild (fst (snd p1)) cache1;
                  p2 = restoreAliases cache2 (snd (snd p1)) (fst (snd p1))
              in case fst p2 of
                   Some e \<Rightarrow> (Some e, (snd p2, cache2), snd cleared)
                 | None \<Rightarrow>
                     (let p3 = restoreStyles (snap_styles snapshot) (snd p2)
                      in (fst p3, (snd p3, cache2), snd cleared))))"
section \<open>The import as a whole\<close>

text \<open>
  The Document arrives as JSON text; \<open>None\<close> is a text that \<open>JSON.parse\<close> rejects.
  The conversion of the token format of the W3C into a Document is not modelled: the
  parsed value is a Document. Of several styles entries the last one counts.
\<close>

fun separateStyles ::
  "ExportFormat \<Rightarrow> StylesExport option \<times> (string \<times> CollectionContent) list
     \<Rightarrow> StylesExport option \<times> (string \<times> CollectionContent) list" where
  "separateStyles [] acc = acc"
| "separateStyles (StylesItem s # rest) (stylesData, collectionData) =
     separateStyles rest (Some s, collectionData)"
| "separateStyles (CollectionItem n c # rest) (stylesData, collectionData) =
     separateStyles rest (stylesData, collectionData @ [(n, c)])"

text \<open>
  The styles of the Document, kind by kind, with the counts of created and updated styles.
  The first processor that throws ends the import of the styles.
\<close>

definition importAllStyles :: "StylesExport \<Rightarrow> Host \<Rightarrow> error option \<times> Host \<times> nat \<times> nat" where
  "importAllStyles stylesData h =
     andThen
       (andThen
          (andThen
             (case colorStyles stylesData of
                Some ss \<Rightarrow>
                  (let r = ColorStyleProcessor_importStyles h ss
                   in (fst r, h\<lparr>localPaintStyles := fst (snd r)\<rparr>, snd (snd r)))
              | None \<Rightarrow> (None, h, 0, 0))
             (\<lambda>hc. case textStyles stylesData of
                     Some ss \<Rightarrow>
                       (let r = TextStyleProcessor_importStyles (fst hc) ss
                        in (fst r, (fst hc)\<lparr>localTextStyles := fst (snd r)\<rparr>,
                            fst (snd hc) + fst (snd (snd r)), snd (snd hc) + snd (snd (snd r))))
                   | None \<Rightarrow> (None, hc)))
          (\<lambda>hc. case effectStyles stylesData of
                  Some ss \<Rightarrow>
                    (let r = EffectStyleProcessor_importStyles (fst hc) ss
                     in (fst r, (fst hc)\<lparr>localEffectStyles := fst (snd r)\<rparr>,
                         fst (snd hc) + fst (snd (snd r)), snd (snd hc) + snd (snd (snd r))))
                | None \<Rightarrow> (None, hc)))
       (\<lambda>hc. case gridStyles stylesData of
               Some ss \<Rightarrow>
                 (let r = GridStyleProcessor_importStyles (fst hc) ss
                  in (fst r, (fst hc)\<lparr>localGridStyles := fst (snd r)\<rparr>,
                      fst (snd hc) + fst (snd (snd r)), snd (snd hc) + snd (snd (snd r))))
             | None \<Rightarrow> (None, hc))"

text \<open>The clearing that the options ask for, each followed by a rebuild of the cache.\<close>

definition applyClearing :: "ImportOptions \<Rightarrow> Host \<times> Cache \<Rightarrow> (Host \<times> Cache) \<times> Message list" where
  "applyClearing options hc =
     (let s1 = (if clearFirst options
                then (let hm = clearAll (fst hc) in ((fst hm, rebuild (fst hm) (snd hc)), snd hm))
                else (hc, []));
          s2 = (case customMerge options of
                  None \<Rightarrow> (fst s1, [])
                | Some cm \<Rightarrow>
                    (let hm = (if cm_clearVariables cm \<and> cm_clearStyles cm then clearAll (fst (fst s1))
                               else if cm_clearVariables cm then clearVariables (fst (fst s1))
                               else if cm_clearStyles cm then clearStyles (fst (fst s1))
                               else (fst (fst s1), []))
                     in ((fst hm, rebuild (fst hm) (snd (fst s1))), snd hm)))
      in (fst s2, snd s1 @ snd s2))"

definition initialImportState :: "Host \<times> Cache \<Rightarrow> ImportState" where
  "initialImportState hc =
     \<lparr>st_host = fst hc, st_cache = snd hc, createdCollections = 0, createdVariables = 0,
      updatedVariables = 0, skippedVariables = 0, allPendingAliases = []\<rparr>"

text \<open>
  The try block of \<open>importVariables\<close>: the exception that ended it, if any, the host and
  cache as they then are, the statistics (reported on success only) and the messages sent.
\<close>

definition importBody ::
  "(string \<Rightarrow> RGBA) \<Rightarrow> ImportOptions \<Rightarrow> ExportFormat option \<Rightarrow> Host \<times> Cache
     \<Rightarrow> error option \<times> (Host \<times> Cache) \<times> Message list" where
  "importBody fromCss options parsed hc =
     (case parsed of
        None \<Rightarrow> (Some SyntaxError, hc, [])
      | Some importData \<Rightarrow>
          (let cleared = applyClearing options hc;
               hc1 = (fst (fst cleared), initialize (fst (fst cleared)) (snd (fst cleared)));
               sep = separateStyles importData (None, []);
               p1 = pass1 fromCss options (snd sep) (initialImportState hc1)
           in case fst p1 of
                Some e \<Rightarrow> (Some e, (st_host (snd p1), st_cache (snd p1)), snd cleared)
              | None \<Rightarrow>
                  (let st = snd p1;
                       cache2 = rebuild (st_host st) (st_cache st);
                       p2 = pass2 cache2 (allPendingAliases st) (st_host st, 0, 0);
                       h2 = fst p2;
                       styled =
                         (case fst sep of
                            Some stylesData \<Rightarrow>
                              if importStyles_opt options
                              then (let r = importAllStyles stylesData h2
                                    in (fst r, fst (snd r), rebuild h2 cache2, snd (snd r)))
                              else (None, h2, cache2, 0, 0)
                          | None \<Rightarrow> (None, h2, cache2, 0, 0))
                   in case fst styled of
                        Some e \<Rightarrow>
                          (Some e, (fst (snd styled), fst (snd (snd styled))), snd cleared)
                      | None \<Rightarrow>
                          (None, (fst (snd styled), fst (snd (snd styled))),
                           snd cleared @
                             [import_complete
                                \<lparr>collectionsCreated = createdCollections st,
                                 variablesCreated = createdVariables st,
                                 variablesUpdated = updatedVariables st,
                                 variablesSkipped = skippedVariables st,
                                 stylesCreated = fst (snd (snd (snd styled))),
                                 stylesUpdated = snd (snd (snd (snd styled)))\<rparr>]))))"

text \<open>
  \<open>importVariables\<close>: take the snapshot (an exception there is logged and the import
  goes on without one), run the try block, and on an exception roll back.
\<close>

definition importVariables ::
  "(string \<Rightarrow> RGBA) \<Rightarrow> ImportOptions \<Rightarrow> ExportFormat option \<Rightarrow> Host \<times> Cache
     \<Rightarrow> (Host \<times> Cache) \<times> Message list" where
  "importVariables fromCss options parsed hc =
     (let preImportSnapshot = (case createUndoSnapshot (fst hc) of
                                 Inl e \<Rightarrow> None | Inr s \<Rightarrow> Some s);
          body = importBody fromCss options parsed hc
      in case fst body of
           None \<Rightarrow> (fst (snd body), snd (snd body))
         | Some e \<Rightarrow>
             (case preImportSnapshot of
                Some snapshot \<Rightarrow>
                  (let restored = restoreFromSnapshot fromCss snapshot (fst (snd body))
                   in (fst (snd restored),
                       snd (snd body) @ [import_rolling_back (errorMessage e)] @ snd (snd restored) @
                         (case fst restored of
                            None \<Rightarrow>
                              [import_rollback_complete (errorMessage e)
                                 ''Import failed but your file has been automatically restored to its previous state.'']
                          | Some rollbackError \<Rightarrow>
                              [import_rollback_failed (errorMessage e) (errorMessage rollbackError)
                                 ''Import failed and automatic rollback also failed. Please use Ctrl+Z (Cmd+Z) to undo manually.''])))
              | None \<Rightarrow>
                  (fst (snd body),
                   snd (snd body) @
                     [error_message (''Import failed: '' @ errorMessage e
                                     @ ''. Use Ctrl+Z (Cmd+Z) to undo changes.'')])))"

text \<open>
  The messages that report how an import ended: completed, rolled back, roll-back failed,
  and the error itself when there was no snapshot.
\<close>

definition isOutcome :: "Message \<Rightarrow> bool" where
  "isOutcome m =
     (case m of
        import_complete stats \<Rightarrow> True
      | import_rollback_complete e t \<Rightarrow> True
      | import_rollback_failed e r t \<Rightarrow> True
      | error_message t \<Rightarrow> startsWith t ''Import failed: ''
      | _ \<Rightarrow> False)"

text \<open>
  The identifiers of the collections are below the counter of the host, and no two
  collections have one identifier.
\<close>

definition wfCollections :: "Host \<Rightarrow> bool" where
  "wfCollections h =
     (distinct (map col_id (collections h)) \<and> list_all (\<lambda>c. col_id c < nextId h) (collections h))"

definition noStyles :: "Host \<Rightarrow> bool" where
  "noStyles h =
     (localPaintStyles h = [] \<and> localTextStyles h = [] \<and> localEffectStyles h = []
      \<and> localGridStyles h = [])"

text \<open>
  A store that is over the mode limit of its plan. A store in which a color has no value
  for the mode of its collection: the host does not make such a store; it stands for a
  store of which the snapshot cannot be taken.
\<close>

definition overLimitHost :: Host where
  "overLimitHost =
     emptyHost
       \<lparr>collections :=
          [\<lparr>col_id = 1, col_name = ''Theme'',
            modes = [\<lparr>modeId = 2, mode_name = ''Light''\<rparr>, \<lparr>modeId = 3, mode_name = ''Dark''\<rparr>],
            variableIds = [], remote = False\<rparr>],
        nextId := 4, modeLimit := 1\<rparr>"

definition unsetColorHost :: Host where
  "unsetColorHost =
     emptyHost
       \<lparr>collections :=
          [\<lparr>col_id = 1, col_name = ''Colors'', modes = [\<lparr>modeId = 10, mode_name = ''Light''\<rparr>],
            variableIds = [2], remote = False\<rparr>],
        variables :=
          [(2, \<lparr>var_id = 2, var_name = ''Brand'', variableCollectionId = 1, resolvedType = COLOR,
                 valuesByMode = [], scopes = [''ALL_SCOPES''], description = ''''\<rparr>)],
        nextId := 11\<rparr>"

text \<open>Identifier, name and origin of the collections of the host, in their order.\<close>

definition collectionFrame :: "Host \<Rightarrow> (nat \<times> string \<times> bool) list" where
  "collectionFrame h = map (\<lambda>c. (col_id c, col_name c, remote c)) (collections h)"

text \<open>
  A step of the host that keeps the collections in place, with their identifiers, names
  and origins, and the styles; the counter does not go down.
\<close>

definition keepsCollections :: "Host \<Rightarrow> Host \<Rightarrow> bool" where
  "keepsCollections h h' =
     (nextId h \<le> nextId h'
      \<and> localPaintStyles h' = localPaintStyles h \<and> localTextStyles h' = localTextStyles h
      \<and> localEffectStyles h' = localEffectStyles h \<and> localGridStyles h' = localGridStyles h
      \<and> (wfCollections h \<longrightarrow> wfCollections h' \<and> collectionFrame h' = collectionFrame h))"

text \<open>The host that a restore leaves, and the styles that a snapshot holds, by kind.\<close>

definition restoredHost :: "(string \<Rightarrow> RGBA) \<Rightarrow> UndoSnapshot \<Rightarrow> Host \<times> Cache \<Rightarrow> Host" where
  "restoredHost fromCss snapshot hc = fst (fst (snd (restoreFromSnapshot fromCss snapshot hc)))"

definition stylesOf :: "'s list option \<Rightarrow> 's list" where
  "stylesOf ss = (case ss of Some xs \<Rightarrow> xs | None \<Rightarrow> [])"

section \<open>Example stores and Documents\<close>

definition blackCss :: "string \<Rightarrow> RGBA" where
  "blackCss s = \<lparr>rgb_r = 0, rgb_g = 0, rgb_b = 0, rgb_a = 1\<rparr>"

definition mergeOptions :: ImportOptions where
  "mergeOptions =
     \<lparr>merge = True, overwrite = True, importStyles_opt = True, clearFirst = False,
      customMerge = None, collectionBehaviors = None\<rparr>"

text \<open>
  A Document with one color variable that is an alias into a library collection, with the
  resolved value \<open>#FF0000\<close> carried as \<open>$localValue\<close>; the library is not in the
  Document.
\<close>

definition libraryAliasLeaf :: ExportVariableValue where
  "libraryAliasLeaf =
     \<lparr>d_scopes = [''ALL_SCOPES''], d_type = ''color'', d_description = None,
      d_value = JString ''{brand.primary}'', d_collectionName = Some ''Library'',
      d_libraryRef = Some ''{brand.primary}'', d_localValue = Some (JColor (hexColor ''#FF0000''))\<rparr>"

definition libraryAliasDocument :: ExportFormat where
  "libraryAliasDocument =
     [CollectionItem ''Theme''
        \<lparr>cc_modes = [(''Light'', [(''accent'', Leaf libraryAliasLeaf)])], d_originalName = None\<rparr>]"

text \<open>
  A Document with one number variable that is an alias into a library collection, with
  the resolved value 8 carried as \<open>$localValue\<close>.
\<close>

definition floatAliasLeaf :: ExportVariableValue where
  "floatAliasLeaf =
     \<lparr>d_scopes = [''ALL_SCOPES''], d_type = ''float'', d_description = None,
      d_value = JString ''{spacing.base}'', d_collectionName = Some ''Library'',
      d_libraryRef = Some ''{spacing.base}'', d_localValue = Some (JNumber 8)\<rparr>"

definition floatAliasDocument :: ExportFormat where
  "floatAliasDocument =
     [CollectionItem ''Sizes''
        \<lparr>cc_modes = [(''Default'', [(''gap'', Leaf floatAliasLeaf)])], d_originalName = None\<rparr>]"


text \<open>The snapshots of the stores \<open>brandHost\<close> and \<open>overLimitHost\<close>.\<close>

definition brandSnapshot :: UndoSnapshot where
  "brandSnapshot =
     \<lparr>snap_collections =
        [\<lparr>cs_name = ''Colors'', cs_modes = [\<lparr>modeId = 10, mode_name = ''Light''\<rparr>],
          cs_variables =
            [\<lparr>vs_name = ''Brand'', vs_type = COLOR, vs_scopes = [''ALL_SCOPES''],
              vs_values = [(''Light'', SnapRaw (Some (StringValue ''#ff0000'')))]\<rparr>]\<rparr>],
      snap_styles =
        \<lparr>colorStyles = Some [], textStyles = Some [], effectStyles = Some [],
         gridStyles = Some []\<rparr>\<rparr>"

definition themeSnapshot :: UndoSnapshot where
  "themeSnapshot =
     \<lparr>snap_collections =
        [\<lparr>cs_name = ''Theme'',
          cs_modes = [\<lparr>modeId = 2, mode_name = ''Light''\<rparr>, \<lparr>modeId = 3, mode_name = ''Dark''\<rparr>],
          cs_variables = []\<rparr>],
      snap_styles =
        \<lparr>colorStyles = Some [], textStyles = Some [], effectStyles = Some [],
         gridStyles = Some []\<rparr>\<rparr>"

text \<open>
  A store with the collections \<open>A\<close> and \<open>A/B\<close>, each with one variable, and the
  cache that a rebuild makes of it.
\<close>

definition nestedHost :: Host where
  "nestedHost =
     emptyHost
       \<lparr>collections :=
          [\<lparr>col_id = 1, col_name = ''A'', modes = [\<lparr>modeId = 2, mode_name = ''Mode 1''\<rparr>],
            variableIds = [3], remote = False\<rparr>,
           \<lparr>col_id = 4, col_name = ''A/B'', modes = [\<lparr>modeId = 5, mode_name = ''Mode 1''\<rparr>],
            variableIds = [6], remote = False\<rparr>],
        variables :=
          [(3, \<lparr>var_id = 3, var_name = ''x'', variableCollectionId = 1, resolvedType = FLOAT,
                 valuesByMode = [(2, FloatValue 1)], scopes = [''ALL_SCOPES''], description = ''''\<rparr>),
           (6, \<lparr>var_id = 6, var_name = ''y'', variableCollectionId = 4, resolvedType = FLOAT,
                 valuesByMode = [(5, FloatValue 2)], scopes = [''ALL_SCOPES''], description = ''''\<rparr>)],
        nextId := 7\<rparr>"

definition nestedCache :: Cache where
  "nestedCache = rebuild nestedHost emptyCache"

text \<open>
  A Document for the collection \<open>A\<close> with the one variable \<open>B/y\<close>.
\<close>

definition nestedDocument :: ExportFormat where
  "nestedDocument =
     [CollectionItem ''A''
        \<lparr>cc_modes =
           [(''Mode 1'',
             [(''B'', Group [(''y'', Leaf \<lparr>d_scopes = [''ALL_SCOPES''], d_type = ''float'',
                                           d_description = None, d_value = JNumber 2,
                                           d_collectionName = None, d_libraryRef = None,
                                           d_localValue = None\<rparr>)])])],
         d_originalName = None\<rparr>]"

section \<open>Naming conventions (NamingConverter)\<close>

text \<open>
  \<open>convert\<close> splits a name into words at the lower-to-upper boundaries of camel case
  and at runs of white space, \<open>/\<close>, \<open>-\<close> and \<open>_\<close>, lowers the words and joins
  them. The letters are the ASCII letters, and white space is the ASCII white space.
  The convention \<open>kebab-case\<close> of the source is \<open>kebab_case\<close> here.
\<close>

datatype NamingConvention = original | camelCase | kebab_case | snake_case

definition upperChar :: "char \<Rightarrow> char" where
  "upperChar ch =
     (if (97::nat) \<le> of_char ch \<and> of_char ch \<le> (122::nat)
      then char_of (of_char ch - (32::nat)) else ch)"

definition isLowerLetter :: "char \<Rightarrow> bool" where
  "isLowerLetter ch = ((97::nat) \<le> of_char ch \<and> of_char ch \<le> (122::nat))"

definition isUpperLetter :: "char \<Rightarrow> bool" where
  "isUpperLetter ch = ((65::nat) \<le> of_char ch \<and> of_char ch \<le> (90::nat))"

fun splitCamel :: "string \<Rightarrow> string" where
  "splitCamel (a # b # rest) =
     (if isLowerLetter a \<and> isUpperLetter b then a # CHR '' '' # splitCamel (b # rest)
      else a # splitCamel (b # rest))"
| "splitCamel s = s"

definition isSeparator :: "char \<Rightarrow> bool" where
  "isSeparator ch =
     (ch = CHR '' '' \<or> ((9::nat) \<le> of_char ch \<and> of_char ch \<le> (13::nat))
      \<or> ch = CHR ''/'' \<or> ch = CHR ''-'' \<or> ch = CHR ''_'')"

fun splitWhen :: "(char \<Rightarrow> bool) \<Rightarrow> string \<Rightarrow> string list" where
  "splitWhen sep [] = [[]]"
| "splitWhen sep (ch # rest) =
     (if sep ch then [] # splitWhen sep rest
      else (case splitWhen sep rest of
              piece # pieces \<Rightarrow> (ch # piece) # pieces
            | [] \<Rightarrow> [[ch]]))"

text \<open>\<open>Array.join\<close>.\<close>

fun joinWith :: "string \<Rightarrow> string list \<Rightarrow> string" where
  "joinWith sep [] = []"
| "joinWith sep [w] = w"
| "joinWith sep (w # ws) = w @ sep @ joinWith sep ws"

definition capitalize :: "string \<Rightarrow> string" where
  "capitalize w = (case w of [] \<Rightarrow> [] | ch # rest \<Rightarrow> upperChar ch # rest)"

definition convert :: "string \<Rightarrow> NamingConvention \<Rightarrow> string" where
  "convert name convention =
     (if convention = original then name
      else
        (let ws = map toLowerCase
                    (filter (\<lambda>w. w \<noteq> []) (splitWhen isSeparator (splitCamel name)))
         in case ws of
              [] \<Rightarrow> name
            | w # rest \<Rightarrow>
                (case convention of
                   camelCase \<Rightarrow> w @ concat (map capitalize rest)
                 | kebab_case \<Rightarrow> joinWith ''-'' ws
                 | snake_case \<Rightarrow> joinWith ''_'' ws
                 | original \<Rightarrow> name)))"

definition convertCollectionName :: "string \<Rightarrow> NamingConvention \<Rightarrow> string" where
  "convertCollectionName name convention = convert name convention"

definition convertModeName :: "string \<Rightarrow> NamingConvention \<Rightarrow> string" where
  "convertModeName name convention = convert name convention"

section \<open>Export (exportVariables)\<close>

text \<open>
  The export builds JavaScript objects key by key. \<open>Object.keys\<close> enumerates the keys
  that are array indices first, in ascending order, and then the other keys in the order
  in which they were set; setting a key that is present keeps its place. \<open>objSet\<close> is
  this assignment on the list of entries.
\<close>

definition isDigitChar :: "char \<Rightarrow> bool" where
  "isDigitChar ch = ((48::nat) \<le> of_char ch \<and> of_char ch \<le> (57::nat))"

definition decimalValue :: "string \<Rightarrow> int" where
  "decimalValue s = fold (\<lambda>ch n. 10 * n + (of_char ch - (48::int))) s 0"

definition isArrayIndex :: "string \<Rightarrow> bool" where
  "isArrayIndex s =
     (s \<noteq> [] \<and> list_all isDigitChar s \<and> (s = ''0'' \<or> hd s \<noteq> CHR ''0'')
      \<and> decimalValue s < 4294967295)"

fun insertIndex :: "int \<Rightarrow> string \<Rightarrow> 'v \<Rightarrow> (string \<times> 'v) list \<Rightarrow> (string \<times> 'v) list" where
  "insertIndex n key v [] = [(key, v)]"
| "insertIndex n key v (kv # rest) =
     (if isArrayIndex (fst kv) \<and> decimalValue (fst kv) < n then kv # insertIndex n key v rest
      else (key, v) # kv # rest)"

definition objSet :: "string \<Rightarrow> 'v \<Rightarrow> (string \<times> 'v) list \<Rightarrow> (string \<times> 'v) list" where
  "objSet key v obj =
     (if key \<in> fst ` set obj then AList.update key v obj
      else if isArrayIndex key then insertIndex (decimalValue key) key v obj
      else obj @ [(key, v)])"

definition toExportType :: "VariableResolvedDataType \<Rightarrow> string" where
  "toExportType ty =
     (case ty of COLOR \<Rightarrow> ''color'' | FLOAT \<Rightarrow> ''float'' | STRING \<Rightarrow> ''string''
      | BOOLEAN \<Rightarrow> ''boolean'')"

definition scopesToArray :: "string list \<Rightarrow> string list" where
  "scopesToArray ss = (if ss = [] \<or> ''ALL_SCOPES'' \<in> set ss then [''ALL_SCOPES''] else ss)"

text \<open>
  \<open>toAllFormats\<close>: the bundle of a color, with its hex text and its components from 0 to
  255; the renderings that nothing reads (\<open>css\<close>, \<open>hsl\<close>, \<open>hsb\<close>) are left out.
\<close>

definition toRgb255 :: "RGBA \<Rightarrow> RgbColor" where
  "toRgb255 color =
     \<lparr>rc_r = mathRound (fl (rgb_r color * 255)), rc_g = mathRound (fl (rgb_g color * 255)),
      rc_b = mathRound (fl (rgb_b color * 255)),
      rc_a = (if rgb_a color < 1 then Some (round2 (rgb_a color)) else None)\<rparr>"

definition toAllFormats :: "RGBA \<Rightarrow> ColorObject" where
  "toAllFormats color = noColor\<lparr>co_hex := Some (toHex color), co_rgb := Some (toRgb255 color)\<rparr>"

text \<open>
  A value of the host as a value of the Document. An alias has no such form; the export
  never asks for one.
\<close>

definition jsonOfValue :: "VariableValue \<Rightarrow> JsonValue option" where
  "jsonOfValue v =
     (case v of
        ColorValue c \<Rightarrow> Some (JColor (toAllFormats c))
      | FloatValue x \<Rightarrow> Some (JNumber x)
      | StringValue s \<Rightarrow> Some (JString s)
      | BooleanValue p \<Rightarrow> Some (JBoolean p)
      | VARIABLE_ALIAS i \<Rightarrow> None)"

text \<open>
  The value record of one variable in one mode. The result is \<open>None\<close> where the run
  gives no value record of the Document type: when the variable has no value for the mode
  (the source then writes a record without \<open>$value\<close>), and when the resolution of an
  alias does not return.
\<close>

definition exportVariableValue ::
  "Host \<Rightarrow> NamingConvention \<Rightarrow> bool \<Rightarrow> Variable \<Rightarrow> nat \<Rightarrow> ExportVariableValue option" where
  "exportVariableValue h namingConvention resolveAliases variable mode =
     (let plain = (\<lambda>exportValue.
                     \<lparr>d_scopes = scopesToArray (scopes variable),
                      d_type = toExportType (resolvedType variable),
                      d_description =
                        (if description variable \<noteq> [] then Some (description variable) else None),
                      d_value = exportValue, d_collectionName = None, d_libraryRef = None,
                      d_localValue = None\<rparr>)
      in case map_of (valuesByMode variable) mode of
           None \<Rightarrow> None
         | Some (VARIABLE_ALIAS i) \<Rightarrow>
             (case getVariableByIdAsync h i of
                None \<Rightarrow> Some (plain (JString []))
              | Some aliasVar \<Rightarrow>
                  (let aliasCol = getVariableCollectionByIdAsync h (variableCollectionId aliasVar);
                       aliasCollection = (case aliasCol of Some c \<Rightarrow> col_name c | None \<Rightarrow> []);
                       isLibraryAlias = (case aliasCol of Some c \<Rightarrow> remote c | None \<Rightarrow> False)
                   in if resolveAliases
                      then (case resolveAliasValue h aliasVar mode 10 of
                              None \<Rightarrow> None
                            | Some resolvedValue \<Rightarrow> map_option plain (jsonOfValue resolvedValue))
                      else
                        (let aliasPath = joinWith ''.''
                                           (map (\<lambda>p. convert p namingConvention)
                                              (splitOn (CHR ''/'') (var_name aliasVar)));
                             aliasRef = ''{'' @ aliasPath @ ''}'';
                             localValue =
                               (if isLibraryAlias
                                then (case valuesByMode aliasVar of
                                        [] \<Rightarrow> None
                                      | kv # _ \<Rightarrow> jsonOfValue (snd kv))
                                else None)
                         in Some ((plain (JString aliasRef))
                                    \<lparr>d_collectionName :=
                                       (if aliasCollection \<noteq> [] then Some aliasCollection else None),
                                     d_libraryRef := (if isLibraryAlias then Some aliasRef else None),
                                     d_localValue := localValue\<rparr>))))
         | Some value \<Rightarrow> map_option plain (jsonOfValue value))"

text \<open>
  The place of a variable in the tree of a mode: the groups on its path are made where
  they are missing or where a value record is in their place, and the record is set under
  the last part of the name.
\<close>

fun insertLeaf :: "string list \<Rightarrow> ExportVariableValue \<Rightarrow> NestedVariables \<Rightarrow> NestedVariables" where
  "insertLeaf [] varExport current = current"
| "insertLeaf [leafName] varExport current = objSet leafName (Leaf varExport) current"
| "insertLeaf (part # rest) varExport current =
     (case map_of current part of
        Some (Group sub) \<Rightarrow> objSet part (Group (insertLeaf rest varExport sub)) current
      | _ \<Rightarrow> objSet part (Group (insertLeaf rest varExport [])) current)"

fun exportModeValues ::
  "Host \<Rightarrow> NamingConvention \<Rightarrow> bool \<Rightarrow> Variable \<Rightarrow> Mode list \<Rightarrow> ModeVariables
     \<Rightarrow> ModeVariables option" where
  "exportModeValues h namingConvention resolveAliases variable [] ms = Some ms"
| "exportModeValues h namingConvention resolveAliases variable (m # rest) ms =
     (let exportModeName = convertModeName (mode_name m) namingConvention;
          nameParts = map (\<lambda>part. convert part namingConvention)
                        (splitOn (CHR ''/'') (var_name variable))
      in case (map_of ms exportModeName,
               exportVariableValue h namingConvention resolveAliases variable (modeId m)) of
           (Some modeValues, Some varExport) \<Rightarrow>
             exportModeValues h namingConvention resolveAliases variable rest
               (objSet exportModeName (insertLeaf nameParts varExport modeValues) ms)
         | _ \<Rightarrow> None)"

fun exportCollectionVariables ::
  "Host \<Rightarrow> NamingConvention \<Rightarrow> bool \<Rightarrow> Mode list \<Rightarrow> nat list \<Rightarrow> ModeVariables
     \<Rightarrow> ModeVariables option" where
  "exportCollectionVariables h namingConvention resolveAliases modesToExport [] ms = Some ms"
| "exportCollectionVariables h namingConvention resolveAliases modesToExport (variableId # rest) ms =
     (case getVariableByIdAsync h variableId of
        None \<Rightarrow> exportCollectionVariables h namingConvention resolveAliases modesToExport rest ms
      | Some variable \<Rightarrow>
          (case exportModeValues h namingConvention resolveAliases variable modesToExport ms of
             None \<Rightarrow> None
           | Some ms' \<Rightarrow>
               exportCollectionVariables h namingConvention resolveAliases modesToExport rest ms'))"

definition exportCollection ::
  "Host \<Rightarrow> NamingConvention \<Rightarrow> (string \<times> string list) list option \<Rightarrow> bool \<Rightarrow> VariableCollection
     \<Rightarrow> Item option" where
  "exportCollection h namingConvention selectedModes resolveAliases collection =
     (let modesToExport =
            (case (case selectedModes of Some sel \<Rightarrow> map_of sel (col_name collection) | None \<Rightarrow> None) of
               Some allowedModes \<Rightarrow> filter (\<lambda>m. mode_name m \<in> set allowedModes) (modes collection)
             | None \<Rightarrow> modes collection);
          exportCollectionName = convertCollectionName (col_name collection) namingConvention;
          emptyModes = fold (\<lambda>m ms. objSet (convertModeName (mode_name m) namingConvention) [] ms)
                         modesToExport []
      in map_option
           (\<lambda>ms. CollectionItem exportCollectionName
                    \<lparr>cc_modes = ms,
                     d_originalName =
                       (if exportCollectionName \<noteq> col_name collection
                        then Some (col_name collection) else None)\<rparr>)
           (exportCollectionVariables h namingConvention resolveAliases modesToExport
              (variableIds collection) emptyModes))"

fun exportCollections ::
  "Host \<Rightarrow> NamingConvention \<Rightarrow> (string \<times> string list) list option \<Rightarrow> bool
     \<Rightarrow> VariableCollection list \<Rightarrow> Item list option" where
  "exportCollections h namingConvention selectedModes resolveAliases [] = Some []"
| "exportCollections h namingConvention selectedModes resolveAliases (collection # rest) =
     (case exportCollection h namingConvention selectedModes resolveAliases collection of
        None \<Rightarrow> None
      | Some item \<Rightarrow>
          map_option (\<lambda>items. item # items)
            (exportCollections h namingConvention selectedModes resolveAliases rest))"

record StyleOptions =
  so_colorStyles :: bool
  so_textStyles :: bool
  so_effectStyles :: bool
  so_gridStyles :: bool

definition exportSelectedStyles :: "Host \<Rightarrow> StyleOptions option \<Rightarrow> Item list" where
  "exportSelectedStyles h styleOptions =
     (case styleOptions of
        None \<Rightarrow> []
      | Some opts \<Rightarrow>
          (let stylesExported =
                 \<lparr>colorStyles = (if so_colorStyles opts then Some (ColorStyleProcessor_export h) else None),
                  textStyles = (if so_textStyles opts then Some (TextStyleProcessor_export h) else None),
                  effectStyles = (if so_effectStyles opts then Some (EffectStyleProcessor_export h) else None),
                  gridStyles = (if so_gridStyles opts then Some (GridStyleProcessor_export h) else None)\<rparr>
           in if so_colorStyles opts \<or> so_textStyles opts \<or> so_effectStyles opts \<or> so_gridStyles opts
              then [StylesItem stylesExported] else []))"

text \<open>
  \<open>exportVariables\<close> in the format \<open>figma\<close>: the Document that is sent with
  \<open>export_complete\<close>. The parameters \<open>preserveLibraryRefs\<close>, which the source
  only logs, and \<open>includeImages\<close>, which goes into the bodies of the styles, are left
  out, and so are the W3C format and the statistics. \<open>JSON.stringify\<close> followed by
  \<open>JSON.parse\<close> gives back the Document.
\<close>

definition exportVariables ::
  "Host \<Rightarrow> string list option \<Rightarrow> StyleOptions option \<Rightarrow> NamingConvention
     \<Rightarrow> (string \<times> string list) list option \<Rightarrow> bool \<Rightarrow> ExportFormat option" where
  "exportVariables h selectedCollections styleOptions namingConvention selectedModes resolveAliases =
     (let cs = (case selectedCollections of
                  Some (n # ns) \<Rightarrow> filter (\<lambda>c. col_name c \<in> set (n # ns))
                                     (getLocalVariableCollectionsAsync h)
                | _ \<Rightarrow> getLocalVariableCollectionsAsync h)
      in map_option (\<lambda>items. items @ exportSelectedStyles h styleOptions)
           (exportCollections h namingConvention selectedModes resolveAliases cs))"

text \<open>
  The round trip: the export of a store with all styles, in the original names, imported
  into the empty store with \<open>overwrite\<close>.
\<close>

definition allStyles :: StyleOptions where
  "allStyles =
     \<lparr>so_colorStyles = True, so_textStyles = True, so_effectStyles = True, so_gridStyles = True\<rparr>"

definition roundTrip :: "(string \<Rightarrow> RGBA) \<Rightarrow> Host \<Rightarrow> Host option" where
  "roundTrip fromCss h =
     map_option
       (\<lambda>document. fst (fst (importVariables fromCss mergeOptions (Some document)
                                 (emptyHost, emptyCache))))
       (exportVariables h None (Some allStyles) original None False)"

text \<open>
  What a store holds, by name: for each local collection its name, the names of its modes,
  and for each variable its name, type and value in each mode, where the value of an alias
  is the collection and the name of its target.
\<close>

datatype NamedValue =
    AliasOf string string
  | RawValue VariableValue
  | DanglingAlias

definition namedValue :: "Host \<Rightarrow> VariableValue \<Rightarrow> NamedValue" where
  "namedValue h v =
     (case v of
        VARIABLE_ALIAS i \<Rightarrow>
          (case getVariableByIdAsync h i of
             None \<Rightarrow> DanglingAlias
           | Some target \<Rightarrow>
               AliasOf (case getVariableCollectionByIdAsync h (variableCollectionId target) of
                          Some c \<Rightarrow> col_name c
                        | None \<Rightarrow> [])
                       (var_name target))
      | _ \<Rightarrow> RawValue v)"

definition namedVariable ::
  "Host \<Rightarrow> VariableCollection \<Rightarrow> Variable
     \<Rightarrow> string \<times> VariableResolvedDataType \<times> (string \<times> NamedValue option) list" where
  "namedVariable h collection v =
     (var_name v, resolvedType v,
      map (\<lambda>m. (mode_name m, map_option (namedValue h) (map_of (valuesByMode v) (modeId m))))
        (modes collection))"

definition namedStore ::
  "Host \<Rightarrow> (string \<times> string list
              \<times> (string \<times> VariableResolvedDataType \<times> (string \<times> NamedValue option) list) list) list" where
  "namedStore h =
     map (\<lambda>c. (col_name c, map mode_name (modes c),
                map (namedVariable h c)
                  (List.map_filter (getVariableByIdAsync h) (variableIds c))))
       (getLocalVariableCollectionsAsync h)"


text \<open>A store with a number \<open>gap\<close> that is an alias of the number \<open>space/half\<close>.\<close>

definition spacingHost :: Host where
  "spacingHost =
     emptyHost
       \<lparr>collections :=
          [\<lparr>col_id = 1, col_name = ''Spacing'', modes = [\<lparr>modeId = 2, mode_name = ''Mode 1''\<rparr>],
            variableIds = [3, 4], remote = False\<rparr>],
        variables :=
          [(3, \<lparr>var_id = 3, var_name = ''space/half'', variableCollectionId = 1, resolvedType = FLOAT,
                 valuesByMode = [(2, FloatValue 2)], scopes = [''ALL_SCOPES''], description = ''''\<rparr>),
           (4, \<lparr>var_id = 4, var_name = ''gap'', variableCollectionId = 1, resolvedType = FLOAT,
                 valuesByMode = [(2, VARIABLE_ALIAS 3)], scopes = [''ALL_SCOPES''],
                 description = ''''\<rparr>)],
        nextId := 5\<rparr>"

text \<open>
  A Document of two collections \<open>T\<close> and \<open>T/B\<close>: the variable \<open>B/x\<close> of the
  first and the variable \<open>x\<close> of the second have one key in the cache, and the
  variable \<open>y\<close> of the second is an alias of the variable \<open>B/x\<close> of the first.
\<close>

definition floatLeaf :: "rat \<Rightarrow> ExportVariableValue" where
  "floatLeaf n =
     \<lparr>d_scopes = [''ALL_SCOPES''], d_type = ''float'', d_description = None,
      d_value = JNumber n, d_collectionName = None, d_libraryRef = None, d_localValue = None\<rparr>"

definition tokensItem :: Item where
  "tokensItem =
     CollectionItem ''T''
       \<lparr>cc_modes = [(''Mode 1'', [(''B'', Group [(''x'', Leaf (floatLeaf 1))])])],
        d_originalName = None\<rparr>"

definition tokensBItem :: Item where
  "tokensBItem =
     CollectionItem ''T/B''
       \<lparr>cc_modes =
          [(''Mode 1'',
            [(''x'', Leaf (floatLeaf 2)),
             (''y'', Leaf ((floatLeaf 0)\<lparr>d_value := JString ''{B.x}'',
                                         d_collectionName := Some ''T''\<rparr>))])],
        d_originalName = None\<rparr>"

text \<open>
  Trees of many variables: the variable of number \<open>i\<close> has the name of \<open>i + 1\<close> letters
  \<open>v\<close>. A Document that holds 5002 variables of the collection \<open>A\<close> in two entries of
  2501 variables.
\<close>

definition manyVariables :: "nat \<Rightarrow> nat \<Rightarrow> NestedVariables" where
  "manyVariables a b = map (\<lambda>i. (replicate (Suc i) CHR ''v'', Leaf (floatLeaf 0))) [a..<b]"

definition collectionEntry :: "string \<Rightarrow> NestedVariables \<Rightarrow> Item" where
  "collectionEntry colName tree =
     CollectionItem colName \<lparr>cc_modes = [(''Mode 1'', tree)], d_originalName = None\<rparr>"

section \<open>Properties of the cache\<close>

lemma map_of_fold_delete:
  "map_of (fold AList.delete ks al) k = (if k \<in> set ks then None else map_of al k)"
  by (induction ks arbitrary: al) (auto simp: delete_conv')

lemma delete_filter_fst: "AList.delete k al = filter (\<lambda>p. fst p \<noteq> k) al"
  by (induction al) auto

lemma fold_delete_filter:
  "fold AList.delete ks al = filter (\<lambda>p. fst p \<notin> set ks) al"
proof (induction ks arbitrary: al)
  case Nil
  show ?case by simp
next
  case (Cons k ks)
  have "fold AList.delete (k # ks) al = filter (\<lambda>p. fst p \<notin> set ks) (AList.delete k al)"
    by (simp add: Cons.IH)
  also have "\<dots> = filter (\<lambda>p. fst p \<notin> set (k # ks)) al"
    by (simp add: delete_filter_fst conj_commute)
  finally show ?case .
qed

text \<open>
  \<open>removeCollection name\<close> deletes the collection handle stored under \<open>name\<close> and
  exactly the variable entries whose key starts with \<open>name\<close> followed by a slash; every
  other entry of both maps, their order and the \<open>initialized\<close> flag stay as they were.
  Which collection a variable entry belongs to is not part of the rule.
\<close>

lemma removeCollection_frame:
  "getCollection (removeCollection name c) n = (if n = name then None else getCollection c n)
   \<and> getVariable (removeCollection name c) k =
       (if startsWith k (name @ ''/'') then None else getVariable c k)
   \<and> collectionMap (removeCollection name c) = filter (\<lambda>p. fst p \<noteq> name) (collectionMap c)
   \<and> variableMap (removeCollection name c) =
       filter (\<lambda>p. \<not> startsWith (fst p) (name @ ''/'')) (variableMap c)
   \<and> initialized (removeCollection name c) = initialized c"
proof -
  let ?ks = "filter (\<lambda>key. startsWith key (name @ ''/'')) (map fst (variableMap c))"
  have vm: "variableMap (removeCollection name c) = fold AList.delete ?ks (variableMap c)"
    by (simp add: removeCollection_def Let_def)
  have cm: "collectionMap (removeCollection name c) = AList.delete name (collectionMap c)"
    by (simp add: removeCollection_def Let_def)
  have mem: "\<And>p. p \<in> set (variableMap c) \<Longrightarrow>
      (fst p \<notin> set ?ks) = (\<not> startsWith (fst p) (name @ ''/''))"
    by auto
  have f4: "variableMap (removeCollection name c) =
      filter (\<lambda>p. \<not> startsWith (fst p) (name @ ''/'')) (variableMap c)"
    unfolding vm fold_delete_filter by (rule filter_cong) (auto simp: mem)
  have f3: "collectionMap (removeCollection name c) = filter (\<lambda>p. fst p \<noteq> name) (collectionMap c)"
    unfolding cm by (rule delete_filter_fst)
  have f1: "getCollection (removeCollection name c) n = (if n = name then None else getCollection c n)"
    by (simp add: getCollection_def cm delete_conv')
  have f2: "getVariable (removeCollection name c) k =
       (if startsWith k (name @ ''/'') then None else getVariable c k)"
  proof (cases "startsWith k (name @ ''/'')")
    case True
    then show ?thesis
      by (simp add: getVariable_def f4 map_of_eq_None_iff image_iff)
  next
    case False
    have "map_of (filter (\<lambda>p. \<not> startsWith (fst p) (name @ ''/'')) al) k = map_of al k" for al
      using False by (induction al) auto
    with False show ?thesis by (simp add: getVariable_def f4)
  qed
  have f5: "initialized (removeCollection name c) = initialized c"
    by (simp add: removeCollection_def Let_def)
  from f1 f2 f3 f4 f5 show ?thesis by blast
qed


text \<open>
  C10. The store has the collections \<open>A\<close>, with the variable \<open>x\<close>, and \<open>A/B\<close>,
  with the variable \<open>y\<close>; the cache is the one that a rebuild makes of it. The key of
  \<open>y\<close> is \<open>A/B/y\<close>, which starts with \<open>A/\<close>. \<open>removeCollection\<close> of \<open>A\<close>
  takes the handle of \<open>A\<close> and the entry of \<open>x\<close> out of the cache, and with them the
  entry of \<open>y\<close>, a variable of the other collection: the collection \<open>A/B\<close> stays
  in the cache and its variable does not.
\<close>

theorem removeCollection_drops_other_collection:
  "collectionMap nestedCache = [(''A'', 1), (''A/B'', 4)]
   \<and> variableMap nestedCache = [(''A/x'', 3), (''A/B/y'', 6)]
   \<and> collectionMap (removeCollection ''A'' nestedCache) = [(''A/B'', 4)]
   \<and> variableMap (removeCollection ''A'' nestedCache) = []
   \<and> getVariable (removeCollection ''A'' nestedCache) ''A/B/y'' = None"
  by code_simp
section \<open>Termination of eager alias resolution\<close>

lemma resolveAliasValue_exhausted:
  "d \<le> 0 \<Longrightarrow> resolveAliasValue h v m d = Some (StringValue '''')"
  by (subst resolveAliasValue.simps) simp

lemma resolveAliasValue_returns_nat:
  "\<exists>y. resolveAliasValue h v m (int n) = Some y"
proof (induction n arbitrary: v)
  case 0
  show ?case by (simp add: resolveAliasValue_exhausted)
next
  case (Suc n)
  have step: "int (Suc n) - 1 = int n" by simp
  show ?case
    apply (subst resolveAliasValue.simps)
    apply (simp only: step)
    using Suc.IH
    by (auto split: option.splits VariableValue.splits list.splits)
qed

lemma resolveAliasValue_returns: "\<exists>y. resolveAliasValue h v m d = Some y"
proof (cases "d \<le> 0")
  case True
  then show ?thesis by (simp add: resolveAliasValue_exhausted)
next
  case False
  then have "d = int (nat d)" by simp
  then show ?thesis using resolveAliasValue_returns_nat [of h v m "nat d"] by simp
qed

lemma aliasesOnly_value:
  assumes "aliasesOnly h v"
  shows "\<exists>i w. (case map_of (valuesByMode v) m of
                   Some x \<Rightarrow> Some x
                 | None \<Rightarrow> (case valuesByMode v of [] \<Rightarrow> None | kv # _ \<Rightarrow> Some (snd kv)))
                = Some (VARIABLE_ALIAS i) \<and> getVariableByIdAsync h i = Some w"
proof -
  from assms have ne: "valuesByMode v \<noteq> []"
    and al: "\<And>kv. kv \<in> set (valuesByMode v) \<Longrightarrow>
               (case snd kv of VARIABLE_ALIAS i \<Rightarrow> getVariableByIdAsync h i \<noteq> None | _ \<Rightarrow> False)"
    by (auto simp: aliasesOnly_def list_all_iff)
  show ?thesis
  proof (cases "map_of (valuesByMode v) m")
    case None
    from ne obtain kv rest where vs: "valuesByMode v = kv # rest" by (cases "valuesByMode v") auto
    then have "kv \<in> set (valuesByMode v)" by simp
    from al [OF this] show ?thesis using None vs
      by (auto split: VariableValue.splits)
  next
    case (Some x)
    then have "(m, x) \<in> set (valuesByMode v)" by (rule map_of_SomeD)
    from al [OF this] show ?thesis using Some
      by (auto split: VariableValue.splits)
  qed
qed

lemma resolveAliasValue_cyclic_nat:
  assumes cyc: "cyclicStore h"
  shows "v \<in> snd ` set (variables h) \<Longrightarrow> resolveAliasValue h v m (int n) = Some (StringValue '''')"
proof (induction n arbitrary: v)
  case 0
  show ?case by (simp add: resolveAliasValue_exhausted)
next
  case (Suc n)
  from cyc Suc.prems have "aliasesOnly h v"
    by (auto simp: cyclicStore_def list_all_iff)
  from aliasesOnly_value [OF this, of m] obtain i w where
    val: "(case map_of (valuesByMode v) m of
             Some x \<Rightarrow> Some x
           | None \<Rightarrow> (case valuesByMode v of [] \<Rightarrow> None | kv # _ \<Rightarrow> Some (snd kv)))
          = Some (VARIABLE_ALIAS i)"
    and w: "getVariableByIdAsync h i = Some w" by blast
  from w have "w \<in> snd ` set (variables h)"
    by (auto simp: getVariableByIdAsync_def dest!: map_of_SomeD intro: rev_image_eqI)
  from Suc.IH [OF this] have ih: "resolveAliasValue h w m (int n) = Some (StringValue '''')" .
  have step: "int (Suc n) - 1 = int n" by simp
  show ?case
    apply (subst resolveAliasValue.simps)
    apply (simp only: val step)
    using ih w by simp
qed

text \<open>
  C9. Eager alias resolution returns for every host, variable, mode and depth bound: each
  recursive call passes the bound decreased by one, and a bound that is not positive
  returns the empty string at once. In a store where every chain of aliases is endless
  (so cyclic), the result is that empty string, whatever the bound.
\<close>

theorem resolveAliasValue_terminates:
  "(\<exists>y. resolveAliasValue h v m d = Some y)
   \<and> (d \<le> 0 \<longrightarrow> resolveAliasValue h v m d = Some (StringValue ''''))
   \<and> (cyclicStore h \<and> v \<in> snd ` set (variables h) \<longrightarrow>
        resolveAliasValue h v m d = Some (StringValue ''''))"
proof -
  have c: "resolveAliasValue h v m d = Some (StringValue '''')"
    if "cyclicStore h" "v \<in> snd ` set (variables h)"
  proof (cases "d \<le> 0")
    case True
    then show ?thesis by (simp add: resolveAliasValue_exhausted)
  next
    case False
    then have "d = int (nat d)" by simp
    then show ?thesis using resolveAliasValue_cyclic_nat [OF that, of m "nat d"] by simp
  qed
  show ?thesis
    using resolveAliasValue_returns [of h v m d] resolveAliasValue_exhausted [of d h v m] c
    by blast
qed

theorem resolveAliasValue_terminates_witness:
  "cyclicStore cycleHost \<and> cycleVar 1 2 \<in> snd ` set (variables cycleHost)
   \<and> resolveAliasValue cycleHost (cycleVar 1 2) 0 10 = Some (StringValue '''')"
proof -
  have cyc: "cyclicStore cycleHost"
    by (simp add: cyclicStore_def aliasesOnly_def cycleHost_def cycleVar_def
        getVariableByIdAsync_def)
  have mem: "cycleVar 1 2 \<in> snd ` set (variables cycleHost)"
    by (simp add: cycleHost_def)
  from resolveAliasValue_terminates [of cycleHost "cycleVar 1 2" 0 10] cyc mem
  show ?thesis by blast
qed

section \<open>The capacity gate\<close>

lemma checkVariableCounts_eq:
  "checkVariableCounts cols errs =
     errs @ map (\<lambda>nc. limitErrorMessage (fst nc) (firstModeVariableCount (snd nc)))
              (filter (\<lambda>nc. firstModeVariableCount (snd nc) > 5000) cols)"
proof (induction cols arbitrary: errs)
  case Nil
  show ?case by simp
next
  case (Cons nc cols)
  obtain colName colData where nc: "nc = (colName, colData)" by (cases nc)
  show ?case
    unfolding nc
    by (simp add: Cons.IH firstModeVariableCount_def MAX_VARIABLES_PER_COLLECTION_def Let_def
        split: list.splits)
qed

lemma analyzeCollections_exceeding:
  "snd (snd (analyzeCollections cp cols (m, t, ex))) =
     ex @ map (\<lambda>nc. exceedingMessage (fst nc) (length (cc_modes (snd nc))) (maxModesPerCollection cp))
            (filter (\<lambda>nc. enat (length (cc_modes (snd nc))) > maxModesPerCollection cp) cols)"
proof (induction cols arbitrary: m t ex)
  case Nil
  show ?case by simp
next
  case (Cons nc cols)
  obtain colName colData where nc: "nc = (colName, colData)" by (cases nc)
  show ?case
    unfolding nc by (simp add: Cons.IH Let_def)
qed

lemma analyzeCollections_total:
  "fst (snd (analyzeCollections cp cols (m, t, ex))) =
     t + sum_list (map (\<lambda>nc. firstModeVariableCount (snd nc)) cols)"
proof (induction cols arbitrary: m t ex)
  case Nil
  show ?case by simp
next
  case (Cons nc cols)
  obtain colName colData where nc: "nc = (colName, colData)" by (cases nc)
  show ?case
    unfolding nc by (simp add: Cons.IH Let_def firstModeVariableCount_def split: list.splits)
qed

lemma validate_errors:
  "errors (validateImportAgainstPlan h importData planOverride) =
     checkVariableCounts (importCollectionsOf importData) []"
  by (simp add: validateImportAgainstPlan_def Let_def case_prod_beta)

lemma validate_canImport:
  "canImport (validateImportAgainstPlan h importData planOverride) =
     (checkVariableCounts (importCollectionsOf importData) [] = [])"
  by (simp add: validateImportAgainstPlan_def Let_def case_prod_beta)

lemma validate_currentPlan:
  "currentPlan (validateImportAgainstPlan h importData planOverride) =
     (case planOverride of Some p \<Rightarrow> PLAN_LIMITS p | None \<Rightarrow> detectCurrentPlan h)"
  by (simp add: validateImportAgainstPlan_def Let_def case_prod_beta)

lemma validate_exceeding:
  "collectionsExceedingModeLimit (importing (validateImportAgainstPlan h importData planOverride)) =
     snd (snd (analyzeCollections
       (case planOverride of Some p \<Rightarrow> PLAN_LIMITS p | None \<Rightarrow> detectCurrentPlan h)
       (importCollectionsOf importData) (0, 0, [])))"
  by (simp add: validateImportAgainstPlan_def Let_def case_prod_beta)

lemma validate_total:
  "im_totalVariables (importing (validateImportAgainstPlan h importData planOverride)) =
     fst (snd (analyzeCollections
       (case planOverride of Some p \<Rightarrow> PLAN_LIMITS p | None \<Rightarrow> detectCurrentPlan h)
       (importCollectionsOf importData) (0, 0, [])))"
  by (simp add: validateImportAgainstPlan_def Let_def case_prod_beta)

lemma validate_warnings:
  "warnings (validateImportAgainstPlan h importData planOverride) =
     (let total = fst (snd (analyzeCollections
             (case planOverride of Some p \<Rightarrow> PLAN_LIMITS p | None \<Rightarrow> detectCurrentPlan h)
             (importCollectionsOf importData) (0, 0, [])));
          n = length (importCollectionsOf importData)
      in (if total > 1000
          then [''Large import: '' @ showNat total @ '' variables. This may take a moment.'']
          else [])
         @ (if n > 10
            then [''Importing '' @ showNat n @ '' collections. Consider importing in batches.'']
            else []))"
  by (simp add: validateImportAgainstPlan_def Let_def case_prod_beta)

text \<open>
  What \<open>countNestedVariables\<close> counts: the variable paths of the tree, the ones that
  \<open>flattenVariables\<close> lists, added to the count it is given.
\<close>

lemma countNestedVariables_paths:
  "countNestedVariables obj n = n + length (flattenVariables obj p)"
proof (induction obj p arbitrary: n rule: flattenVariables.induct)
  case (1 prefix)
  show ?case by simp
next
  case (2 key v rest prefix)
  show ?case by (simp add: 2)
next
  case (3 key obj rest prefix)
  show ?case by (simp add: 3)
qed

lemma firstModeVariableCount_paths:
  "firstModeVariableCount colData = length (entryPaths colData)"
  using countNestedVariables_paths [of _ 0 "[]"]
  by (simp add: firstModeVariableCount_def entryPaths_def split: list.splits)

text \<open>
  For every Document, host and plan: the errors are exactly one named message for each
  collection entry that has more than 5000 variable paths (the paths that the import
  flattens from the tree of its first mode), in the order of the Document;
  \<open>canImport\<close> holds exactly when there is no such entry. The collections over the mode
  limit of the plan are listed in \<open>collectionsExceedingModeLimit\<close> and have no effect on
  the errors or on \<open>canImport\<close>, which are the same under every plan and host. A total
  over 1000 variables and more than 10 collections each add one warning and nothing else.
  The validator reads the host and returns its report: it has no host state to return.
\<close>

lemma validateImportAgainstPlan_capacity_gate:
  "errors (validateImportAgainstPlan h importData planOverride) =
     map (\<lambda>nc. limitErrorMessage (fst nc) (length (entryPaths (snd nc))))
       (filter (\<lambda>nc. length (entryPaths (snd nc)) > 5000) (importCollectionsOf importData))
   \<and> canImport (validateImportAgainstPlan h importData planOverride) =
       list_all (\<lambda>nc. length (entryPaths (snd nc)) \<le> 5000) (importCollectionsOf importData)
   \<and> collectionsExceedingModeLimit (importing (validateImportAgainstPlan h importData planOverride)) =
       map (\<lambda>nc. exceedingMessage (fst nc) (length (cc_modes (snd nc)))
                  (maxModesPerCollection (currentPlan (validateImportAgainstPlan h importData planOverride))))
         (filter (\<lambda>nc. enat (length (cc_modes (snd nc)))
                     > maxModesPerCollection (currentPlan (validateImportAgainstPlan h importData planOverride)))
            (importCollectionsOf importData))
   \<and> errors (validateImportAgainstPlan h importData planOverride) =
       errors (validateImportAgainstPlan h' importData planOverride')
   \<and> canImport (validateImportAgainstPlan h importData planOverride) =
       canImport (validateImportAgainstPlan h' importData planOverride')
   \<and> im_totalVariables (importing (validateImportAgainstPlan h importData planOverride)) =
       sum_list (map (\<lambda>nc. length (entryPaths (snd nc))) (importCollectionsOf importData))
   \<and> warnings (validateImportAgainstPlan h importData planOverride) =
       (if sum_list (map (\<lambda>nc. length (entryPaths (snd nc))) (importCollectionsOf importData)) > 1000
        then [''Large import: ''
                @ showNat (sum_list (map (\<lambda>nc. length (entryPaths (snd nc)))
                                      (importCollectionsOf importData)))
                @ '' variables. This may take a moment.'']
        else [])
       @ (if length (importCollectionsOf importData) > 10
          then [''Importing '' @ showNat (length (importCollectionsOf importData))
                  @ '' collections. Consider importing in batches.'']
          else [])"
proof -
  let ?cols = "importCollectionsOf importData"
  let ?cnt = "\<lambda>nc. length (entryPaths (snd nc))"
  have cnt: "\<And>c. firstModeVariableCount c = length (entryPaths c)"
    by (rule firstModeVariableCount_paths)
  have e: "errors (validateImportAgainstPlan h importData planOverride) =
      map (\<lambda>nc. limitErrorMessage (fst nc) (?cnt nc)) (filter (\<lambda>nc. ?cnt nc > 5000) ?cols)"
    by (simp add: validate_errors checkVariableCounts_eq cnt)
  have c: "canImport (validateImportAgainstPlan h importData planOverride) =
      list_all (\<lambda>nc. ?cnt nc \<le> 5000) ?cols"
    by (simp add: validate_canImport checkVariableCounts_eq cnt filter_empty_conv list_all_iff
        not_less)
  have x: "collectionsExceedingModeLimit (importing (validateImportAgainstPlan h importData planOverride)) =
       map (\<lambda>nc. exceedingMessage (fst nc) (length (cc_modes (snd nc)))
                  (maxModesPerCollection (currentPlan (validateImportAgainstPlan h importData planOverride))))
         (filter (\<lambda>nc. enat (length (cc_modes (snd nc)))
                     > maxModesPerCollection (currentPlan (validateImportAgainstPlan h importData planOverride)))
            ?cols)"
    unfolding validate_exceeding validate_currentPlan analyzeCollections_exceeding by simp
  have e': "errors (validateImportAgainstPlan h importData planOverride) =
       errors (validateImportAgainstPlan h' importData planOverride')"
    by (simp add: validate_errors)
  have c': "canImport (validateImportAgainstPlan h importData planOverride) =
       canImport (validateImportAgainstPlan h' importData planOverride')"
    by (simp add: validate_canImport)
  have t: "im_totalVariables (importing (validateImportAgainstPlan h importData planOverride)) =
       sum_list (map ?cnt ?cols)"
    by (simp add: validate_total analyzeCollections_total cnt)
  have w: "warnings (validateImportAgainstPlan h importData planOverride) =
       (if sum_list (map ?cnt ?cols) > 1000
        then [''Large import: '' @ showNat (sum_list (map ?cnt ?cols))
                @ '' variables. This may take a moment.'']
        else [])
       @ (if length ?cols > 10
          then [''Importing '' @ showNat (length ?cols)
                  @ '' collections. Consider importing in batches.'']
          else [])"
    unfolding validate_warnings analyzeCollections_total Let_def cnt by simp
  show ?thesis
    apply (intro conjI)
    apply (rule e)
    apply (rule c)
    apply (rule x)
    apply (rule e')
    apply (rule c')
    apply (rule t)
    apply (rule w)
    done
qed


text \<open>The paths of the trees of many variables: they are as many as asked for, and distinct.\<close>

lemma flattenVariables_leaves:
  "flattenVariables (map (\<lambda>i. (f i, Leaf v)) xs) [] = map (\<lambda>i. (f i, v)) xs"
  by (induction xs) simp_all

lemma entryPaths_manyVariables:
  "entryPaths \<lparr>cc_modes = [(m, manyVariables a b)], d_originalName = None\<rparr> =
     map (\<lambda>i. replicate (Suc i) CHR ''v'') [a..<b]"
  by (simp add: entryPaths_def manyVariables_def flattenVariables_leaves comp_def)


text \<open>
  The limit at its edge: a collection entry of 5000 variables passes, one of 5001 is
  refused by name.
\<close>

lemma validateImportAgainstPlan_boundary:
  "errors (validateImportAgainstPlan h [collectionEntry ''A'' (manyVariables 0 5000)] planOverride) = []
   \<and> canImport (validateImportAgainstPlan h [collectionEntry ''A'' (manyVariables 0 5000)] planOverride)
   \<and> errors (validateImportAgainstPlan h [collectionEntry ''A'' (manyVariables 0 5001)] planOverride) =
       [''Collection \"A\" has 5001 variables, exceeds limit of 5000'']
   \<and> \<not> canImport (validateImportAgainstPlan h [collectionEntry ''A'' (manyVariables 0 5001)] planOverride)"
proof -
  have s1: "showNat 5001 = ''5001''" by code_simp
  have s0: "showNat 5000 = ''5000''" by code_simp
  have m: "limitErrorMessage ''A'' 5001 = ''Collection \"A\" has 5001 variables, exceeds limit of 5000''"
    unfolding limitErrorMessage_def MAX_VARIABLES_PER_COLLECTION_def s1 s0 by simp
  have a: "errors (validateImportAgainstPlan h [collectionEntry ''A'' (manyVariables 0 5000)] planOverride) = []"
    by (simp add: validate_errors checkVariableCounts_eq firstModeVariableCount_paths
        collectionEntry_def entryPaths_manyVariables)
  have b: "errors (validateImportAgainstPlan h [collectionEntry ''A'' (manyVariables 0 5001)] planOverride) =
       [limitErrorMessage ''A'' 5001]"
    by (simp add: validate_errors checkVariableCounts_eq firstModeVariableCount_paths
        collectionEntry_def entryPaths_manyVariables)
  have c: "canImport (validateImportAgainstPlan h [collectionEntry ''A'' (manyVariables 0 5000)] planOverride)"
    by (simp add: validate_canImport checkVariableCounts_eq firstModeVariableCount_paths
        collectionEntry_def entryPaths_manyVariables)
  have d: "\<not> canImport (validateImportAgainstPlan h [collectionEntry ''A'' (manyVariables 0 5001)] planOverride)"
    by (simp add: validate_canImport checkVariableCounts_eq firstModeVariableCount_paths
        collectionEntry_def entryPaths_manyVariables)
  show ?thesis using a b c d unfolding m by blast
qed

text \<open>
  Two entries of one collection name are imported into one collection: the two entries of
  one variable each leave the collection \<open>A\<close> with two variables.
\<close>

lemma importVariables_entries_of_one_name:
  "namedStore (fst (fst (importVariables blackCss mergeOptions
       (Some [collectionEntry ''A'' (manyVariables 0 1), collectionEntry ''A'' (manyVariables 1 2)])
       (emptyHost, emptyCache)))) =
     [(''A'', [''Mode 1''],
       [(''v'', FLOAT, [(''Mode 1'', Some (RawValue (FloatValue 0)))]),
        (''vv'', FLOAT, [(''Mode 1'', Some (RawValue (FloatValue 0)))])])]"
  by code_simp

section \<open>The classification of the diff\<close>

text \<open>
  A live alias is different from every incoming value. A live color differs from an
  incoming color bundle exactly when its hex text and the incoming hex text differ after
  both are put in lower case.
\<close>

lemma valuesAreDifferent_alias:
  "valuesAreDifferent (Some (VARIABLE_ALIAS i)) imported"
  by simp

lemma valuesAreDifferent_color:
  "valuesAreDifferent (Some (ColorValue c)) (JColor (hexColor hx)) =
     (toLowerCase (toHex c) \<noteq> toLowerCase hx)"
  by (simp add: hexColor_def noColor_def)

text \<open>
  The live store has \<open>Colors/Brand = #FF0000\<close>. The same path with \<open>#FF0000\<close>, or
  with \<open>#ff0000\<close>, is unchanged and so is the collection; with \<open>#00FF00\<close> it is
  modified, with the old and the new hex text, and so is the collection; a path that the
  live collection does not have is new, and the collection is modified.
\<close>

lemma computeImportDiff_brand_unchanged:
  "snd (computeImportDiff brandHost emptyCache (brandDocument ''Brand'' ''#FF0000'')) =
     Inr \<lparr>newCollections = [], modifiedCollections = [], unchangedCollections = [''Colors''],
          newVariables = [], modifiedVariables = [], unchangedVariables = 1,
          newStyles = [], modifiedStyles = [],
          summary = \<lparr>collectionsNew = 0, collectionsModified = 0, collectionsUnchanged = 1,
                      variablesNew = 0, variablesModified = 0, variablesUnchanged = 1,
                      stylesNew = 0, stylesModified = 0\<rparr>\<rparr>
   \<and> snd (computeImportDiff brandHost emptyCache (brandDocument ''Brand'' ''#ff0000'')) =
       snd (computeImportDiff brandHost emptyCache (brandDocument ''Brand'' ''#FF0000''))"
  by code_simp

lemma computeImportDiff_brand_modified:
  "snd (computeImportDiff brandHost emptyCache (brandDocument ''Brand'' ''#00FF00'')) =
     Inr \<lparr>newCollections = [], modifiedCollections = [''Colors''], unchangedCollections = [],
          newVariables = [],
          modifiedVariables =
            [\<lparr>mv_collection = ''Colors'', mv_path = ''Brand'',
              oldValue = Text ''#ff0000'', newValue = Text ''#00FF00''\<rparr>],
          unchangedVariables = 0, newStyles = [], modifiedStyles = [],
          summary = \<lparr>collectionsNew = 0, collectionsModified = 1, collectionsUnchanged = 0,
                      variablesNew = 0, variablesModified = 1, variablesUnchanged = 0,
                      stylesNew = 0, stylesModified = 0\<rparr>\<rparr>"
  by code_simp

lemma computeImportDiff_brand_new:
  "snd (computeImportDiff brandHost emptyCache (brandDocument ''Accent'' ''#FF0000'')) =
     Inr \<lparr>newCollections = [], modifiedCollections = [''Colors''], unchangedCollections = [],
          newVariables = [(''Colors'', ''Accent'')], modifiedVariables = [],
          unchangedVariables = 0, newStyles = [], modifiedStyles = [],
          summary = \<lparr>collectionsNew = 0, collectionsModified = 1, collectionsUnchanged = 0,
                      variablesNew = 1, variablesModified = 0, variablesUnchanged = 0,
                      stylesNew = 0, stylesModified = 0\<rparr>\<rparr>"
  by code_simp

text \<open>
  C6. The live store has the collection \<open>A\<close> with the one variable \<open>x\<close>, and the
  collection \<open>A/B\<close> with the variable \<open>y\<close>. The Document has, for the collection
  \<open>A\<close>, the one path \<open>B/y\<close>: the live collection \<open>A\<close> has no variable of that
  path. The diff looks the path up under the key \<open>A/B/y\<close>, which is the key of the
  variable \<open>y\<close> of the collection \<open>A/B\<close>: it does not record the path as new, it
  records it as modified, with the old value \<open>undefined\<close>, the value of that other
  variable for the mode of \<open>A\<close>.
\<close>

theorem computeImportDiff_key_collision:
  "namedStore nestedHost =
     [(''A'', [''Mode 1''], [(''x'', FLOAT, [(''Mode 1'', Some (RawValue (FloatValue 1)))])]),
      (''A/B'', [''Mode 1''], [(''y'', FLOAT, [(''Mode 1'', Some (RawValue (FloatValue 2)))])])]
   \<and> snd (computeImportDiff nestedHost emptyCache nestedDocument) =
       Inr \<lparr>newCollections = [], modifiedCollections = [''A''], unchangedCollections = [],
            newVariables = [],
            modifiedVariables =
              [\<lparr>mv_collection = ''A'', mv_path = ''B/y'',
                oldValue = Text ''undefined'', newValue = NumberText 2\<rparr>],
            unchangedVariables = 0, newStyles = [], modifiedStyles = [],
            summary = \<lparr>collectionsNew = 0, collectionsModified = 1, collectionsUnchanged = 0,
                        variablesNew = 0, variablesModified = 1, variablesUnchanged = 0,
                        stylesNew = 0, stylesModified = 0\<rparr>\<rparr>"
  by code_simp

section \<open>A mode of the Document that the live collection does not have\<close>

text \<open>
  C7. The live collection \<open>Colors\<close> has the one mode \<open>Light\<close>. The Document entry
  has the mode \<open>Light\<close> with the live value and a mode \<open>Dark\<close>, which the live
  collection does not have. The source sets \<open>hasModifications\<close> for \<open>Dark\<close> and
  then decides by the recorded variables alone: the collection is recorded unchanged.
\<close>

theorem computeImportDiff_unmatched_mode:
  "snd (computeImportDiff brandHost emptyCache extraModeDocument) =
     Inr \<lparr>newCollections = [], modifiedCollections = [], unchangedCollections = [''Colors''],
          newVariables = [], modifiedVariables = [], unchangedVariables = 1,
          newStyles = [], modifiedStyles = [],
          summary = \<lparr>collectionsNew = 0, collectionsModified = 0, collectionsUnchanged = 1,
                      variablesNew = 0, variablesModified = 0, variablesUnchanged = 1,
                      stylesNew = 0, stylesModified = 0\<rparr>\<rparr>"
  by code_simp
section \<open>The temporary value of a queued alias\<close>

text \<open>
  For a leaf whose \<open>$value\<close> is an alias reference and a variable of type FLOAT or
  BOOLEAN, \<open>setRawValue\<close> writes nothing: what it hands to the host is a color, for a
  leaf of type color, or the text of the reference, the host rejects both for the
  variable, and the rejection is passed over.
\<close>

lemma setRawValue_alias_rejected:
  assumes "getVariableByIdAsync h variable = Some var"
    and "resolvedType var = FLOAT \<or> resolvedType var = BOOLEAN"
    and "isAliasReference (d_value leaf)"
  shows "setRawValue fromCss variable mId leaf h = h"
proof -
  from assms(3) obtain s where s: "d_value leaf = JString s"
    by (cases "d_value leaf") (simp_all add: isAliasReference_def)
  show ?thesis
  proof (cases "rawValueOf fromCss leaf")
    case None
    thus ?thesis by (simp add: setRawValue_def)
  next
    case (Some val)
    have "(\<exists>c. val = ColorValue c) \<or> (\<exists>t. val = StringValue t)"
      using Some s by (auto simp add: rawValueOf_def split: if_splits sum.splits)
    hence "\<not> fitsType h (resolvedType var) val"
      using assms(2) by (auto simp add: fitsType_def)
    thus ?thesis
      using Some assms(1) by (simp add: setRawValue_def setValueForMode_def)
  qed
qed

text \<open>
  C1. The Document has one variable \<open>gap\<close> of type float that is an alias into a
  library, with the resolved value 8 carried as \<open>$localValue\<close>; the store is empty. The
  first pass ends without an exception, makes the variable (3) of type FLOAT in the mode
  (2) of its collection and queues the alias with the leaf as its fallback. It writes no
  temporary value: what it hands to the host is the text of the reference, which the host
  rejects for a number. The variable holds the value that the host gave it when it was
  made, 0, and not the carried 8.
\<close>

theorem pass1_float_alias_no_placeholder:
  "fst (pass1 blackCss mergeOptions (importCollectionsOf floatAliasDocument)
          (initialImportState (emptyHost, emptyCache))) = None
   \<and> allPendingAliases (snd (pass1 blackCss mergeOptions (importCollectionsOf floatAliasDocument)
                               (initialImportState (emptyHost, emptyCache)))) =
       [\<lparr>pa_variable = 3, pa_modeId = 2, aliasPath = ''spacing/base'',
         aliasCollection = ''Library'', fallbackValue = floatAliasLeaf\<rparr>]
   \<and> d_localValue floatAliasLeaf = Some (JNumber 8)
   \<and> map_option resolvedType
       (getVariableByIdAsync
          (st_host (snd (pass1 blackCss mergeOptions (importCollectionsOf floatAliasDocument)
                           (initialImportState (emptyHost, emptyCache))))) 3) = Some FLOAT
   \<and> rawValueOf blackCss floatAliasLeaf = Some (StringValue ''{spacing.base}'')
   \<and> liveValue
        (st_host (snd (pass1 blackCss mergeOptions (importCollectionsOf floatAliasDocument)
                         (initialImportState (emptyHost, emptyCache))))) 3 2
       = Some (FloatValue (initialFloat emptyHost))
   \<and> initialFloat emptyHost = 0"
  by code_simp

section \<open>An alias whose target is not there\<close>

lemma pass2_target_missing:
  assumes "getVariable cache (aliasCollection pending @ ''/'' @ aliasPath pending) = None"
  shows "pass2 cache (pending # rest) (h, aliasesResolved, aliasesFailed) =
           pass2 cache rest (h, aliasesResolved, aliasesFailed + 1)"
  using assms by simp

lemma pass2_counts:
  "fst (snd (pass2 cache ps (h, n, k))) + snd (snd (pass2 cache ps (h, n, k))) = n + k + length ps"
  by (induction ps arbitrary: h n k) (auto split: option.splits sum.splits)

text \<open>
  C3. The Document has one color variable \<open>accent\<close> that is an alias into the
  collection \<open>Library\<close>, which is neither in the Document nor in the store, and carries
  the resolved color \<open>#FF0000\<close> as \<open>$localValue\<close>. The import ends without an exception
  and reports its statistics; the target is not found in the second pass. The variable
  then holds what the first pass made of the text of the reference, which is black, and not
  the carried \<open>#FF0000\<close>: the import never reads \<open>$localValue\<close>.
\<close>

theorem importVariables_unresolved_alias_value:
  "snd (importVariables blackCss mergeOptions (Some libraryAliasDocument) (emptyHost, emptyCache)) =
     [import_complete
        \<lparr>collectionsCreated = 1, variablesCreated = 1, variablesUpdated = 0,
         variablesSkipped = 0, stylesCreated = 0, stylesUpdated = 0\<rparr>]
   \<and> liveValue
        (fst (fst (importVariables blackCss mergeOptions (Some libraryAliasDocument)
                     (emptyHost, emptyCache)))) 3 2
       = Some (ColorValue \<lparr>rgb_r = 0, rgb_g = 0, rgb_b = 0, rgb_a = 1\<rparr>)
   \<and> d_localValue libraryAliasLeaf = Some (JColor (hexColor ''#FF0000''))
   \<and> fromHex ''#FF0000'' = \<lparr>rgb_r = 1, rgb_g = 0, rgb_b = 0, rgb_a = 1\<rparr>"
  by code_simp

section \<open>The order of the collections of a Document\<close>

text \<open>
  The second pass looks a target up in the rebuilt cache under the key made of the name
  of the collection, \<open>/\<close> and the name of the variable. When the Document has the
  collections of an alias and of its target under names with distinct keys, the target is
  found also when the collection of the alias comes first.
\<close>

lemma importVariables_forward_reference:
  "namedStore (fst (fst (importVariables blackCss mergeOptions
                           (Some [CollectionItem ''B''
                                    \<lparr>cc_modes = [(''Mode 1'',
                                        [(''y'', Leaf ((floatLeaf 0)\<lparr>d_value := JString ''{x}'',
                                                        d_collectionName := Some ''A''\<rparr>))])],
                                     d_originalName = None\<rparr>,
                                  CollectionItem ''A''
                                    \<lparr>cc_modes = [(''Mode 1'', [(''x'', Leaf (floatLeaf 1))])],
                                     d_originalName = None\<rparr>])
                           (emptyHost, emptyCache)))) =
     [(''B'', [''Mode 1''], [(''y'', FLOAT, [(''Mode 1'', Some (AliasOf ''A'' ''x''))])]),
      (''A'', [''Mode 1''], [(''x'', FLOAT, [(''Mode 1'', Some (RawValue (FloatValue 1)))])])]"
  by code_simp

text \<open>
  C2. The key of the cache does not tell the collection \<open>T\<close> with the variable
  \<open>B/x\<close> from the collection \<open>T/B\<close> with the variable \<open>x\<close>. The Document
  has both, and in \<open>T/B\<close> the variable \<open>y\<close>, an alias of \<open>B/x\<close> of \<open>T\<close>.
  With \<open>T\<close> first, the first pass takes \<open>B/x\<close> of \<open>T\<close> for the variable
  \<open>x\<close> of \<open>T/B\<close> and does not make \<open>x\<close>; with \<open>T/B\<close> first it takes
  \<open>x\<close> for \<open>B/x\<close> and does not make \<open>B/x\<close>, and \<open>y\<close> becomes an alias
  of \<open>x\<close>. The two stores differ in the variables that they have and in the target of
  the alias: the result of the import depends on the order of the two collections.
\<close>

theorem importVariables_order_key_collision:
  "namedStore (fst (fst (importVariables blackCss mergeOptions (Some [tokensItem, tokensBItem])
                           (emptyHost, emptyCache)))) =
     [(''T'', [''Mode 1''], [(''B/x'', FLOAT, [(''Mode 1'', Some (RawValue (FloatValue 1)))])]),
      (''T/B'', [''Mode 1''], [(''y'', FLOAT, [(''Mode 1'', Some (AliasOf ''T'' ''B/x''))])])]
   \<and> namedStore (fst (fst (importVariables blackCss mergeOptions (Some [tokensBItem, tokensItem])
                             (emptyHost, emptyCache)))) =
     [(''T/B'', [''Mode 1''],
       [(''x'', FLOAT, [(''Mode 1'', Some (RawValue (FloatValue 2)))]),
        (''y'', FLOAT, [(''Mode 1'', Some (AliasOf ''T/B'' ''x''))])]),
      (''T'', [''Mode 1''], [])]"
proof -
  have o1: "namedStore (fst (fst (importVariables blackCss mergeOptions
                                       (Some [tokensItem, tokensBItem]) (emptyHost, emptyCache)))) =
     [(''T'', [''Mode 1''], [(''B/x'', FLOAT, [(''Mode 1'', Some (RawValue (FloatValue 1)))])]),
      (''T/B'', [''Mode 1''], [(''y'', FLOAT, [(''Mode 1'', Some (AliasOf ''T'' ''B/x''))])])]"
    by code_simp
  have o2: "namedStore (fst (fst (importVariables blackCss mergeOptions
                                        (Some [tokensBItem, tokensItem]) (emptyHost, emptyCache)))) =
     [(''T/B'', [''Mode 1''],
       [(''x'', FLOAT, [(''Mode 1'', Some (RawValue (FloatValue 2)))]),
        (''y'', FLOAT, [(''Mode 1'', Some (AliasOf ''T/B'' ''x''))])]),
      (''T'', [''Mode 1''], [])]"
    by code_simp
  from o1 o2 show ?thesis by (rule conjI)
qed

section \<open>Export and import again\<close>

text \<open>
  The store \<open>brandHost\<close>, with one color, comes back from the round trip as it was,
  by name.
\<close>

lemma roundTrip_brandHost:
  "map_option namedStore (roundTrip blackCss brandHost) = Some (namedStore brandHost)"
  by code_simp

text \<open>
  The store \<open>spacingHost\<close>, with a number and an alias of it, comes back as it was too.
\<close>

lemma roundTrip_spacingHost:
  "map_option namedStore (roundTrip blackCss spacingHost) = Some (namedStore spacingHost)"
  by code_simp

end
